theory Spec2Isabelle
  imports Main "HOL-Library.AList" "HOL-Library.Sublist"
begin

section \<open>Strings and POSIX paths\<close>

text \<open>
  JavaScript strings are modelled as \<^typ>\<open>string\<close>.  \<open>str_includes\<close> is
  \<^verbatim>\<open>String.prototype.includes\<close> (and \<^verbatim>\<open>Buffer.prototype.includes\<close> with a string
  argument): the needle occurs at some position of the haystack.
\<close>

fun str_includes :: "string \<Rightarrow> string \<Rightarrow> bool" where
  "str_includes [] needle = (needle = [])"
| "str_includes (c # cs) needle = (prefix needle (c # cs) \<or> str_includes cs needle)"

text \<open>The number of positions of the haystack at which the needle starts.\<close>

fun occurrences :: "string \<Rightarrow> string \<Rightarrow> nat" where
  "occurrences [] needle = (if needle = [] then 1 else 0)"
| "occurrences (c # cs) needle =
     (if prefix needle (c # cs) then 1 else 0) + occurrences cs needle"

text \<open>
  The \<^verbatim>\<open>path\<close> module of Node.js, POSIX flavour.  \<open>splitPath\<close> cuts a string at every
  \<^verbatim>\<open>/\<close>; \<open>normalizeSegs\<close> is \<^verbatim>\<open>normalizeString\<close> for an absolute path (empty and
  \<^verbatim>\<open>.\<close> segments are dropped, \<^verbatim>\<open>..\<close> removes the segment before it and is dropped
  at the root).
\<close>

fun splitPath :: "string \<Rightarrow> string list" where
  "splitPath [] = [[]]"
| "splitPath (c # cs) =
     (if c = CHR ''/'' then [] # splitPath cs
      else (case splitPath cs of [] \<Rightarrow> [[c]] | s # ss \<Rightarrow> (c # s) # ss))"

fun normalizeSegs :: "string list \<Rightarrow> string list \<Rightarrow> string list" where
  "normalizeSegs acc [] = acc"
| "normalizeSegs acc (s # ss) =
     (if s = [] \<or> s = ''.'' then normalizeSegs acc ss
      else if s = ''..'' then normalizeSegs (butlast acc) ss
      else normalizeSegs (acc @ [s]) ss)"

definition renderPath :: "string list \<Rightarrow> string" where
  "renderPath segs = (if segs = [] then ''/'' else concat (map (\<lambda>s. CHR ''/'' # s) segs))"

text \<open>
  \<^verbatim>\<open>path.resolve(...args)\<close>: the arguments are taken from the right, each one put in
  front of what has been collected, until an absolute one has been taken; the current
  working directory comes after the leftmost argument.  The loop is given the reversed
  arguments followed by the working directory.
\<close>

fun resolveLoop :: "string list \<Rightarrow> string \<Rightarrow> string" where
  "resolveLoop [] resolvedPath = resolvedPath"
| "resolveLoop (p # ps) resolvedPath =
     (if p = [] then resolveLoop ps resolvedPath
      else if hd p = CHR ''/'' then p @ CHR ''/'' # resolvedPath
      else resolveLoop ps (p @ CHR ''/'' # resolvedPath))"

definition path_resolve :: "string \<Rightarrow> string list \<Rightarrow> string" where
  "path_resolve cwd args =
     renderPath (normalizeSegs [] (splitPath (resolveLoop (rev args @ [cwd]) [])))"

text \<open>\<^verbatim>\<open>path.basename(p)\<close>: the last segment, trailing separators ignored.\<close>

definition path_basename :: "string \<Rightarrow> string" where
  "path_basename p =
     (case filter (\<lambda>s. s \<noteq> []) (splitPath p) of [] \<Rightarrow> [] | s # ss \<Rightarrow> last (s # ss))"

text \<open>
  \<^verbatim>\<open>path.dirname(p)\<close>: trailing separators and the last segment are cut off; what is
  left of a path with no directory part is \<^verbatim>\<open>/\<close> or \<^verbatim>\<open>.\<close>.
\<close>

definition path_dirname :: "string \<Rightarrow> string" where
  "path_dirname p =
     (if p = [] then ''.''
      else let d = rev (dropWhile (\<lambda>c. c \<noteq> CHR ''/'')
                         (dropWhile (\<lambda>c. c = CHR ''/'') (rev p)))
           in if length d \<le> 1 then (if hd p = CHR ''/'' then ''/'' else ''.'')
              else if hd p = CHR ''/'' \<and> length d = 2 then ''//''
              else butlast d)"

section \<open>The file system and the outcome of a run\<close>

datatype node = Dir | File string

datatype error =
    ENOENT string
  | EISDIR string
  | SyntaxError string
  | TypeError string
  | Unresolved "string list"
  | Thrown string

text \<open>
  A run either goes on with a value (\<open>Ok\<close>), ends the process (\<^verbatim>\<open>process.exit(n)\<close>) or
  rejects with an error.
\<close>

datatype 'a outcome = Ok 'a | Exit nat | Throw error

record world =
  cwd :: string
  nodes :: "string \<rightharpoonup> node"
  console :: "string list"

definition fs_exists :: "world \<Rightarrow> string \<Rightarrow> bool" where
  "fs_exists w p = (nodes w p \<noteq> None)"

definition fs_readFile :: "world \<Rightarrow> string \<Rightarrow> string outcome" where
  "fs_readFile w p =
     (case nodes w p of
        None \<Rightarrow> Throw (ENOENT p)
      | Some Dir \<Rightarrow> Throw (EISDIR p)
      | Some (File text) \<Rightarrow> Ok text)"

definition fs_writeFile :: "string \<Rightarrow> string \<Rightarrow> world \<Rightarrow> unit outcome \<times> world" where
  "fs_writeFile p text w =
     (case nodes w p of
        Some Dir \<Rightarrow> (Throw (EISDIR p), w)
      | _ \<Rightarrow> (Ok (), w\<lparr>nodes := (nodes w)(p \<mapsto> File text)\<rparr>))"

section \<open>JavaScript values\<close>

text \<open>
  The values the program handles: what \<^verbatim>\<open>JSON.parse\<close> yields, and functions (hooks
  given in a configuration module or loaded by \<^verbatim>\<open>require\<close>), named by a label.  An
  object is its list of own enumerable properties in insertion order; an array is an
  object of class \<open>ArrayObject\<close> whose properties are its defined elements under their
  decimal indices (its \<^verbatim>\<open>length\<close> is not recorded).  A property holding
  \<^verbatim>\<open>undefined\<close> is not told apart from a missing one: reading either gives
  \<^verbatim>\<open>undefined\<close>, here \<open>None\<close>.  Numbers are never computed with; integers stand
  for them.
\<close>

datatype cls = PlainObject | ArrayObject

text \<open>
  A function value: one that a configuration or a required module supplies, or one of
  the closures the packaging code creates itself; the label tells them apart.
\<close>

datatype fn = Given string | Internal string

datatype jsval =
    JNull
  | JBool bool
  | JNum int
  | JStr string
  | JFun fn
  | JObj cls "(string \<times> jsval) list"

type_synonym props = "(string \<times> jsval) list"

text \<open>\<^verbatim>\<open>ToBoolean\<close>, as used by \<^verbatim>\<open>if\<close>, \<^verbatim>\<open>!\<close>, \<^verbatim>\<open>&&\<close> and \<^verbatim>\<open>||\<close>.\<close>

fun truthy :: "jsval option \<Rightarrow> bool" where
  "truthy None = False"
| "truthy (Some JNull) = False"
| "truthy (Some (JBool b)) = b"
| "truthy (Some (JNum n)) = (n \<noteq> 0)"
| "truthy (Some (JStr s)) = (s \<noteq> [])"
| "truthy (Some (JFun f)) = True"
| "truthy (Some (JObj c ps)) = True"

text \<open>The decimal form of an array index.\<close>

fun showNat :: "nat \<Rightarrow> string" where
  "showNat n =
     (if n < 10 then [char_of (48 + n)]
      else showNat (n div 10) @ [char_of (48 + n mod 10)])"

declare showNat.simps [simp del]

text \<open>
  Reading a property of a value that is neither \<^verbatim>\<open>null\<close> nor \<^verbatim>\<open>undefined\<close>.
  Own properties only: of the inherited ones the program reads none by these names.
\<close>

fun getProp :: "jsval \<Rightarrow> string \<Rightarrow> jsval option" where
  "getProp (JObj c ps) k = map_of ps k"
| "getProp v k = None"

text \<open>\<^verbatim>\<open>Object.keys\<close>: the own enumerable property names; a string has its indices.\<close>

fun objectKeys :: "jsval \<Rightarrow> string list" where
  "objectKeys (JObj c ps) = map fst ps"
| "objectKeys (JStr s) = map showNat [0..<length s]"
| "objectKeys v = []"

text \<open>\<^verbatim>\<open>delete v[k]\<close>; on a primitive value it does nothing.\<close>

fun deleteProp :: "string \<Rightarrow> jsval \<Rightarrow> jsval" where
  "deleteProp k (JObj c ps) = JObj c (AList.delete k ps)"
| "deleteProp k v = v"

text \<open>
  \<^verbatim>\<open>v[k] = x\<close> in strict mode: a \<^verbatim>\<open>TypeError\<close> on a primitive value.  Storing
  \<^verbatim>\<open>undefined\<close> (\<open>None\<close>) leaves a property that every reader sees as missing.  A
  function takes the property, which its representation here does not record.
\<close>

fun setProp :: "string \<Rightarrow> jsval option \<Rightarrow> jsval \<Rightarrow> jsval outcome" where
  "setProp k (Some x) (JObj c ps) = Ok (JObj c (AList.update k x ps))"
| "setProp k None (JObj c ps) = Ok (JObj c (AList.delete k ps))"
| "setProp k x (JFun f) = Ok (JFun f)"
| "setProp k x v = Throw (TypeError (''Cannot create property '' @ k))"

text \<open>
  \<^verbatim>\<open>Object.assign(target, source)\<close> for an object target: every own enumerable
  property of the source is stored in the target, in the source's order.
\<close>

fun objectAssign :: "props \<Rightarrow> props \<Rightarrow> props" where
  "objectAssign target [] = target"
| "objectAssign target ((k, x) # source) = objectAssign (AList.update k x target) source"

section \<open>Import (\<^verbatim>\<open>src/api/import.js\<close>)\<close>

text \<open>
  What import calls and this development does not look into: \<^verbatim>\<open>JSON.parse\<close> (\<open>None\<close>
  for a \<^verbatim>\<open>SyntaxError\<close>) and \<^verbatim>\<open>JSON.stringify(v, null, 2)\<close>, the text of a value
  in a template literal (\<open>None\<close> is \<^verbatim>\<open>undefined\<close>), \<^verbatim>\<open>initGit\<close>, the
  spawned prune of the package manager, \<^verbatim>\<open>installDepList\<close>, the dependency lists
  \<^verbatim>\<open>deps\<close> and \<^verbatim>\<open>devDeps\<close> of \<^verbatim>\<open>init-npm\<close>, and the directory of the template
  manifest.
\<close>

record ext =
  jsonParse :: "string \<Rightarrow> jsval option"
  jsonStringify :: "jsval \<Rightarrow> string"
  toText :: "jsval option \<Rightarrow> string"
  initGit :: "string \<Rightarrow> world \<Rightarrow> unit outcome \<times> world"
  spawnPrune :: "string \<Rightarrow> world \<Rightarrow> world"
  installDepList :: "string \<Rightarrow> string list \<Rightarrow> bool \<Rightarrow> bool \<Rightarrow> world \<Rightarrow> unit outcome \<times> world"
  deps :: "string list"
  devDeps :: "string list"
  tmplDir :: string

text \<open>
  The user's answers to the prompts of \<^verbatim>\<open>inquirer\<close>.  The dependency prompt is asked
  once per position of the key list, so its answer depends on the position too.
\<close>

record answers =
  confirm :: bool
  shouldContinue :: bool
  shouldChangeMain :: bool
  newMain :: "jsval option \<Rightarrow> string"
  shouldRemoveDependency :: "nat \<Rightarrow> string \<Rightarrow> bool"

definition andThen ::
  "'a outcome \<times> world \<Rightarrow> ('a \<Rightarrow> world \<Rightarrow> 'b outcome \<times> world) \<Rightarrow> 'b outcome \<times> world" where
  "andThen m f =
     (case m of
        (Ok a, w) \<Rightarrow> f a w
      | (Exit n, w) \<Rightarrow> (Exit n, w)
      | (Throw e, w) \<Rightarrow> (Throw e, w))"

definition consoleLog :: "string \<Rightarrow> world \<Rightarrow> world" where
  "consoleLog msg w = w\<lparr>console := console w @ [msg]\<rparr>"

text \<open>
  \<^verbatim>\<open>fs.remove\<close> of \<^verbatim>\<open>fs-promise\<close>: the path and everything below it is gone.
\<close>

definition fs_remove :: "string \<Rightarrow> world \<Rightarrow> world" where
  "fs_remove p w =
     w\<lparr>nodes := (\<lambda>q. if q = p \<or> prefix (p @ ''/'') q then None else nodes w q)\<rparr>"

text \<open>
  Modelled from the spec: \<^verbatim>\<open>util/read-package-json\<close> is not among the sources.  The
  spec has import read the manifest of a directory, a JSON document; the manifest is
  the file \<^verbatim>\<open>package.json\<close> of the directory (the one import checks for and writes).
\<close>

definition readPackageJSON :: "ext \<Rightarrow> string \<Rightarrow> world \<Rightarrow> jsval outcome" where
  "readPackageJSON x dir w =
     (case fs_readFile w (path_resolve (cwd w) [dir, ''package.json'']) of
        Ok text \<Rightarrow>
          (case jsonParse x text of
             None \<Rightarrow> Throw (SyntaxError text)
           | Some v \<Rightarrow> Ok v)
      | Exit n \<Rightarrow> Exit n
      | Throw e \<Rightarrow> Throw e)"

text \<open>
  The table \<^verbatim>\<open>buildToolPackages\<close>.  The lookup \<^verbatim>\<open>buildToolPackages[key]\<close> also
  finds what an object literal inherits from \<^verbatim>\<open>Object.prototype\<close>, all of it truthy.
\<close>

definition buildToolPackages :: "string list" where
  "buildToolPackages =
     [''electron-builder'', ''electron-download'', ''electron-installer-debian'',
      ''electron-installer-dmg'', ''electron-installer-flatpak'',
      ''electron-installer-redhat'', ''electron-osx-sign'', ''electron-packager'',
      ''electron-winstaller'']"

definition objectPrototypeNames :: "string list" where
  "objectPrototypeNames =
     [''constructor'', ''__defineGetter__'', ''__defineSetter__'', ''hasOwnProperty'',
      ''__lookupGetter__'', ''__lookupSetter__'', ''isPrototypeOf'',
      ''propertyIsEnumerable'', ''toString'', ''valueOf'', ''__proto__'',
      ''toLocaleString'']"

definition isBuildTool :: "string \<Rightarrow> bool" where
  "isBuildTool key = (key \<in> set buildToolPackages \<or> key \<in> set objectPrototypeNames)"

text \<open>
  The loop over \<^verbatim>\<open>keys\<close> (lines 100 to 119).  The state is the two dependency
  mappings and \<^verbatim>\<open>electronName\<close>; \<open>i\<close> is the position of the key at hand.
\<close>

fun scanKeys ::
  "bool \<Rightarrow> answers \<Rightarrow> nat \<Rightarrow> string list \<Rightarrow> jsval \<times> jsval \<times> string option
     \<Rightarrow> jsval \<times> jsval \<times> string option" where
  "scanKeys interactive a i [] st = st"
| "scanKeys interactive a i (key # keys) (dependencies, devDependencies, electronName) =
     (if key = ''electron'' \<or> key = ''electron-prebuilt''
      then scanKeys interactive a (Suc i) keys
             (deleteProp key dependencies, deleteProp key devDependencies, Some key)
      else if isBuildTool key
      then (if \<not> interactive \<or> shouldRemoveDependency a i key
            then scanKeys interactive a (Suc i) keys
                   (deleteProp key dependencies, deleteProp key devDependencies, electronName)
            else scanKeys interactive a (Suc i) keys
                   (dependencies, devDependencies, electronName))
      else scanKeys interactive a (Suc i) keys (dependencies, devDependencies, electronName))"

text \<open>The names of the legacy runtime package, and \<^verbatim>\<open>packageJSON[field][k]\<close>.\<close>

definition isLegacyRuntime :: "string \<Rightarrow> bool" where
  "isLegacyRuntime key = (key = ''electron'' \<or> key = ''electron-prebuilt'')"

definition entry :: "props \<Rightarrow> string \<Rightarrow> string \<Rightarrow> jsval option" where
  "entry packageJSON field k =
     (case map_of packageJSON field of None \<Rightarrow> None | Some v \<Rightarrow> getProp v k)"

text \<open>\<^verbatim>\<open>v || {}\<close> for a property value.\<close>

definition orEmptyObject :: "jsval option \<Rightarrow> jsval" where
  "orEmptyObject v = (if truthy v then the v else JObj PlainObject [])"

text \<open>
  Lines 127 to 132: with an \<^verbatim>\<open>electronName\<close>, the manifest of the installed
  package is read and its \<^verbatim>\<open>version\<close> stored under \<^verbatim>\<open>electron-prebuilt-compile\<close>
  in \<^verbatim>\<open>devDependencies\<close>.  The result is the new \<^verbatim>\<open>devDependencies\<close> and
  \<^verbatim>\<open>electronVersion\<close>.
\<close>

definition pinElectron ::
  "ext \<Rightarrow> string \<Rightarrow> string option \<Rightarrow> jsval \<Rightarrow> world \<Rightarrow> (jsval \<times> jsval option) outcome" where
  "pinElectron x dir electronName devDependencies w =
     (case electronName of
        None \<Rightarrow> Ok (devDependencies, None)
      | Some name \<Rightarrow>
          (case readPackageJSON x (path_resolve (cwd w) [dir, ''node_modules'', name]) w of
             Ok JNull \<Rightarrow> Throw (TypeError ''Cannot read property version of null'')
           | Ok electronPackageJSON \<Rightarrow>
               (case setProp ''electron-prebuilt-compile''
                       (getProp electronPackageJSON ''version'') devDependencies of
                  Ok d \<Rightarrow> Ok (d, getProp electronPackageJSON ''version'')
                | Exit n \<Rightarrow> Exit n
                | Throw e \<Rightarrow> Throw e)
           | Exit n \<Rightarrow> Exit n
           | Throw e \<Rightarrow> Throw e))"

text \<open>
  Lines 84 to 132 on the properties of the manifest: the two mappings are defaulted,
  scanned and stored back (they are the manifest's own objects, changed in place),
  then the version is pinned.  The result is the manifest, \<^verbatim>\<open>electronName\<close> and
  \<^verbatim>\<open>electronVersion\<close>.
\<close>

definition migrateDependencies ::
  "ext \<Rightarrow> answers \<Rightarrow> string \<Rightarrow> bool \<Rightarrow> props \<Rightarrow> world
     \<Rightarrow> (props \<times> string option \<times> jsval option) outcome" where
  "migrateDependencies x a dir interactive packageJSON w =
     (let dependencies = orEmptyObject (map_of packageJSON ''dependencies'');
          devDependencies = orEmptyObject (map_of packageJSON ''devDependencies'');
          keys = objectKeys dependencies @ objectKeys devDependencies
      in case scanKeys interactive a 0 keys (dependencies, devDependencies, None) of
           (dependencies', devDependencies', electronName) \<Rightarrow>
             (case pinElectron x dir electronName devDependencies' w of
                Ok (devDependencies'', electronVersion) \<Rightarrow>
                  Ok (AList.update ''devDependencies'' devDependencies''
                        (AList.update ''dependencies'' dependencies' packageJSON),
                      electronName, electronVersion)
              | Exit n \<Rightarrow> Exit n
              | Throw e \<Rightarrow> Throw e))"

text \<open>The list \<^verbatim>\<open>keys\<close> of line 87, for stating what the scan does.\<close>

definition dependencyKeys :: "props \<Rightarrow> string list" where
  "dependencyKeys packageJSON =
     objectKeys (orEmptyObject (map_of packageJSON ''dependencies''))
       @ objectKeys (orEmptyObject (map_of packageJSON ''devDependencies''))"

text \<open>\<^verbatim>\<open>writeChanges\<close>: the manifest is serialised and written, a line break after it.\<close>

definition writeChanges :: "ext \<Rightarrow> string \<Rightarrow> jsval \<Rightarrow> world \<Rightarrow> unit outcome \<times> world" where
  "writeChanges x dir packageJSON w =
     fs_writeFile (path_resolve (cwd w) [dir, ''package.json''])
       (jsonStringify x packageJSON @ [CHR 0x0A]) w"

text \<open>Lines 136 to 161: pruning and reinstalling, when a runtime package was found.\<close>

definition reinstall ::
  "ext \<Rightarrow> string \<Rightarrow> string \<Rightarrow> jsval option \<Rightarrow> world \<Rightarrow> unit outcome \<times> world" where
  "reinstall x dir electronName electronVersion w =
     (let w1 = spawnPrune x dir w;
          w2 = fs_remove (path_resolve (cwd w1) [dir, ''node_modules/.bin/electron'']) w1;
          w3 = fs_remove (path_resolve (cwd w2) [dir, ''node_modules/.bin/electron.cmd'']) w2;
          w4 = fs_remove (path_resolve (cwd w3) [dir, ''node_modules'', electronName]) w3
      in andThen (installDepList x dir (deps x) False False w4) (\<lambda>_ w5.
         andThen (installDepList x dir (devDeps x) True False w5) (\<lambda>_ w6.
           installDepList x dir
             [''electron-prebuilt-compile@'' @ toText x electronVersion] False True w6)))"

text \<open>
  Modelled from the spec: \<^verbatim>\<open>util/ora-handler\<close> is not among the sources.  The spec
  has every step of import after the first either skip or hand on the underlying
  error; the label is for display.
\<close>

definition asyncOra ::
  "string \<Rightarrow> (world \<Rightarrow> 'a outcome \<times> world) \<Rightarrow> world \<Rightarrow> 'a outcome \<times> world" where
  "asyncOra label f w = f w"

text \<open>\<^verbatim>\<open>packageJSON.config && packageJSON.config.forge\<close>\<close>

definition alreadyConfigured :: "props \<Rightarrow> bool" where
  "alreadyConfigured packageJSON =
     (case map_of packageJSON ''config'' of
        None \<Rightarrow> False
      | Some c \<Rightarrow> truthy (Some c) \<and> truthy (getProp c ''forge''))"

text \<open>
  Lines 163 to 167 on the manifest read again: \<^verbatim>\<open>config\<close> is defaulted and its
  \<^verbatim>\<open>forge\<close> property set to the one of the template manifest.
\<close>

definition injectForgeConfig :: "jsval \<Rightarrow> jsval \<Rightarrow> jsval outcome" where
  "injectForgeConfig packageJSON templatePackageJSON =
     (case packageJSON of
        JObj c ps \<Rightarrow>
          (case templatePackageJSON of
             JNull \<Rightarrow> Throw (TypeError ''Cannot read property config of null'')
           | _ \<Rightarrow>
               (case getProp templatePackageJSON ''config'' of
                  None \<Rightarrow> Throw (TypeError ''Cannot read property forge of undefined'')
                | Some JNull \<Rightarrow> Throw (TypeError ''Cannot read property forge of null'')
                | Some tc \<Rightarrow>
                    (case setProp ''forge'' (getProp tc ''forge'')
                            (orEmptyObject (map_of ps ''config'')) of
                       Ok config \<Rightarrow> Ok (JObj c (AList.update ''config'' config ps))
                     | Exit n \<Rightarrow> Exit n
                     | Throw e \<Rightarrow> Throw e)))
      | JNull \<Rightarrow> Throw (TypeError ''Cannot read property config of null'')
      | _ \<Rightarrow> Throw (TypeError ''Cannot create property config''))"

text \<open>
  \<^verbatim>\<open>Object.assign(compileConfig, {'application/javascript': babelConfig})\<close> as
  \<^verbatim>\<open>JSON.stringify\<close> sees it.  \<^verbatim>\<open>null\<close> as the target is a \<^verbatim>\<open>TypeError\<close>; a
  primitive target is wrapped, and the wrapper is serialised as the primitive.
\<close>

definition assignBabel :: "jsval \<Rightarrow> jsval \<Rightarrow> jsval outcome" where
  "assignBabel compileConfig babelConfig =
     (case compileConfig of
        JNull \<Rightarrow> Throw (TypeError ''Cannot convert undefined or null to object'')
      | JObj c ps \<Rightarrow> Ok (JObj c (objectAssign ps [(''application/javascript'', babelConfig)]))
      | v \<Rightarrow> Ok v)"

definition readJSONFile :: "ext \<Rightarrow> string \<Rightarrow> world \<Rightarrow> jsval outcome" where
  "readJSONFile x p w =
     (case fs_readFile w p of
        Ok text \<Rightarrow>
          (case jsonParse x text of
             None \<Rightarrow> Throw (SyntaxError text)
           | Some v \<Rightarrow> Ok v)
      | Exit n \<Rightarrow> Exit n
      | Throw e \<Rightarrow> Throw e)"

text \<open>The step \<^verbatim>\<open>Porting original babel config\<close> (lines 187 to 197).\<close>

definition portBabelConfig :: "ext \<Rightarrow> string \<Rightarrow> jsval \<Rightarrow> world \<Rightarrow> unit outcome \<times> world" where
  "portBabelConfig x dir babelConfig w =
     (let compilePath = path_resolve (cwd w) [dir, ''.compilerc''] in
      andThen
        (if fs_exists w compilePath then (readJSONFile x compilePath w, w)
         else (Ok (JObj PlainObject []), w))
        (\<lambda>compileConfig w1.
           case assignBabel compileConfig babelConfig of
             Ok v \<Rightarrow> fs_writeFile compilePath (jsonStringify x v) w1
           | Exit n \<Rightarrow> (Exit n, w1)
           | Throw e \<Rightarrow> (Throw e, w1)))"

text \<open>Lines 180 to 200: the legacy configuration is looked for and ported.\<close>

definition migrateBabel :: "ext \<Rightarrow> string \<Rightarrow> jsval \<Rightarrow> world \<Rightarrow> unit outcome \<times> world" where
  "migrateBabel x dir packageJSON w =
     (let babelPath = path_resolve (cwd w) [dir, ''.babelrc''] in
      andThen
        (if \<not> truthy (getProp packageJSON ''babel'') \<and> fs_exists w babelPath
         then (case readJSONFile x babelPath w of
                 Ok v \<Rightarrow> (Ok (Some v), w)
               | Exit n \<Rightarrow> (Exit n, w)
               | Throw e \<Rightarrow> (Throw e, w))
         else (Ok (getProp packageJSON ''babel''), w))
        (\<lambda>babelConfig w1.
           if truthy babelConfig
           then andThen (asyncOra ''Porting original babel config''
                           (portBabelConfig x dir (the babelConfig)) w1)
                  (\<lambda>_ w2. (Ok (), consoleLog ''NOTE: You might be able to remove your `.compilerc` file completely'' w2))
           else (Ok (), w1)))"

text \<open>
  The step \<^verbatim>\<open>Fixing .gitignore\<close> of \<^verbatim>\<open>src/api/import.js\<close>: when the ignore file
  exists it is read, and unless its content includes \<^verbatim>\<open>out\<close> it is rewritten with
  a line break and \<^verbatim>\<open>out/\<close> at its end.
\<close>

definition fixGitignore :: "string \<Rightarrow> world \<Rightarrow> unit outcome \<times> world" where
  "fixGitignore dir w =
     (let p = path_resolve (cwd w) [dir, ''.gitignore''] in
      if fs_exists w p then
        (case fs_readFile w p of
           Ok gitignore \<Rightarrow>
             if \<not> str_includes gitignore ''out''
             then fs_writeFile p (gitignore @ CHR 0x0A # ''out/'') w
             else (Ok (), w)
         | Exit n \<Rightarrow> (Exit n, w)
         | Throw e \<Rightarrow> (Throw e, w))
      else (Ok (), w))"

text \<open>Lines 134 to 214, after the dependencies have been migrated.\<close>

definition finishImport ::
  "ext \<Rightarrow> string \<Rightarrow> jsval \<Rightarrow> string option \<Rightarrow> jsval option \<Rightarrow> world
     \<Rightarrow> unit outcome \<times> world" where
  "finishImport x dir packageJSON electronName electronVersion w =
     andThen (asyncOra ''Writing modified package.json file'' (writeChanges x dir packageJSON) w)
       (\<lambda>_ w1.
     andThen (case electronName of
                None \<Rightarrow> (Ok (), w1)
              | Some name \<Rightarrow> reinstall x dir name electronVersion w1)
       (\<lambda>_ w2.
     andThen (readPackageJSON x dir w2, w2)
       (\<lambda>reread w3.
     andThen (case reread of
                JObj c ps \<Rightarrow> (readPackageJSON x (tmplDir x) w3, w3)
              | JNull \<Rightarrow> (Throw (TypeError ''Cannot read property config of null''), w3)
              | _ \<Rightarrow> (Throw (TypeError ''Cannot create property config''), w3))
       (\<lambda>templatePackageJSON w4.
     andThen (injectForgeConfig reread templatePackageJSON, w4)
       (\<lambda>packageJSON' w5.
     andThen (asyncOra ''Writing modified package.json file'' (writeChanges x dir packageJSON') w5)
       (\<lambda>_ w6.
     andThen (asyncOra ''Fixing .gitignore'' (fixGitignore dir) w6)
       (\<lambda>_ w7.
     andThen (migrateBabel x dir packageJSON' w7)
       (\<lambda>_ w8. (Ok (), consoleLog ''We have ATTEMPTED to convert your app'' w8)))))))))"

text \<open>
  The default export of \<^verbatim>\<open>src/api/import.js\<close>.  A manifest that is not an object
  ends the run with a \<^verbatim>\<open>TypeError\<close> at the first property read or stored, before
  anything is written.
\<close>

definition importProject ::
  "ext \<Rightarrow> answers \<Rightarrow> string \<Rightarrow> bool \<Rightarrow> world \<Rightarrow> unit outcome \<times> world" where
  "importProject x a dir interactive w =
     (if \<not> fs_exists w (path_resolve (cwd w) [dir])
         \<or> \<not> fs_exists w (path_resolve (cwd w) [dir, ''package.json''])
      then (Exit 1, consoleLog (''We couldn't find a project in: '' @ dir) w)
      else if \<not> (\<not> interactive \<or> confirm a) then (Exit 1, w)
      else
        andThen (initGit x dir w) (\<lambda>_ w1.
        andThen (readPackageJSON x dir w1, w1) (\<lambda>packageJSON w2.
          case packageJSON of
            JObj c ps \<Rightarrow>
              (let w3 = (if alreadyConfigured ps
                         then consoleLog ''It looks like this project is already configured for \"electron-forge\"'' w2
                         else w2)
               in if alreadyConfigured ps \<and> \<not> (\<not> interactive \<or> shouldContinue a)
                  then (Exit 0, w3)
                  else
                    (let ps1 = (if interactive \<and> shouldChangeMain a
                                then AList.update ''main'' (JStr (newMain a (map_of ps ''main''))) ps
                                else ps)
                     in andThen (migrateDependencies x a dir interactive ps1 w3, w3)
                          (\<lambda>(ps2, electronName, electronVersion) w4.
                             finishImport x dir (JObj c ps2) electronName electronVersion w4)))
          | _ \<Rightarrow> (Throw (TypeError ''packageJSON is not an object''), w2))))"

text \<open>Two project directories used as concrete inputs below.\<close>

definition freshWorld :: world where
  "freshWorld =
     \<lparr>cwd = ''/'',
      nodes = [''/app'' \<mapsto> Dir, ''/app/.gitignore'' \<mapsto> File ''node_modules''],
      console = []\<rparr>"

definition layoutWorld :: world where
  "layoutWorld =
     \<lparr>cwd = ''/'',
      nodes = [''/app'' \<mapsto> Dir, ''/app/.gitignore'' \<mapsto> File ''layout''],
      console = []\<rparr>"

text \<open>A collaborator record and answers used as concrete inputs below.\<close>

definition demoExt :: ext where
  "demoExt =
     \<lparr>jsonParse = (\<lambda>text.
         if text = ''{electron}'' then Some (JObj PlainObject [(''version'', JStr ''1.4.15'')])
         else if text = ''{compilerc}''
         then Some (JObj PlainObject
                      [(''env'', JStr ''production''),
                       (''application/javascript'', JObj PlainObject [(''presets'', JStr ''old'')])])
         else if text = ''{root-main}''
         then Some (JObj PlainObject
                      [(''main'', JStr ''index.js''),
                       (''devDependencies'',
                          JObj PlainObject [(''electron-prebuilt-compile'', JStr ''1.4.15'')])])
         else None),
       jsonStringify = (\<lambda>v. ''{}''),
       toText = (\<lambda>v. case v of Some (JStr s) \<Rightarrow> s | _ \<Rightarrow> ''undefined''),
       initGit = (\<lambda>dir w. (Ok (), w)),
       spawnPrune = (\<lambda>dir w. w),
       installDepList = (\<lambda>dir ds dev exact w. (Ok (), w)),
       deps = [],
       devDeps = [],
       tmplDir = ''/forge/tmpl''\<rparr>"

definition demoAnswers :: answers where
  "demoAnswers =
     \<lparr>confirm = True, shouldContinue = True, shouldChangeMain = False,
      newMain = (\<lambda>d. ''src/index.js''), shouldRemoveDependency = (\<lambda>i key. False)\<rparr>"

definition electronWorld :: world where
  "electronWorld =
     \<lparr>cwd = ''/'',
      nodes = [''/app'' \<mapsto> Dir,
               ''/app/node_modules/electron-prebuilt/package.json'' \<mapsto> File ''{electron}'',
               ''/app/.compilerc'' \<mapsto> File ''{compilerc}''],
      console = []\<rparr>"

definition demoManifest :: props where
  "demoManifest =
     [(''name'', JStr ''app''),
      (''dependencies'',
         JObj PlainObject [(''electron-prebuilt'', JStr ''^1.4.0''), (''lodash'', JStr ''^4.17.4'')]),
      (''devDependencies'',
         JObj PlainObject [(''electron-packager'', JStr ''^8.5.0'')])]"

section \<open>Package (the second module of \<^verbatim>\<open>src/api/import.js\<close>)\<close>

text \<open>
  Modelled from the spec: \<^verbatim>\<open>util/require-search\<close> is not among the sources.  The
  spec has a name resolved by searching candidate locations under the project
  directory, and a failure surface as an error identifying the unresolved name.
  \<open>modules dir name\<close> is what the search finds for \<open>name\<close> under \<open>dir\<close>.
\<close>

fun findModule :: "(string \<Rightarrow> jsval option) \<Rightarrow> string list \<Rightarrow> jsval option" where
  "findModule found [] = None"
| "findModule found (p # ps) =
     (case found p of Some v \<Rightarrow> Some v | None \<Rightarrow> findModule found ps)"

definition requireSearch ::
  "(string \<Rightarrow> string \<Rightarrow> jsval option) \<Rightarrow> string \<Rightarrow> string list \<Rightarrow> jsval outcome" where
  "requireSearch modules relativeTo paths =
     (case findModule (modules relativeTo) paths of
        Some v \<Rightarrow> Ok v
      | None \<Rightarrow> Throw (Unresolved paths))"

text \<open>
  \<^verbatim>\<open>hooks.map(hook => typeof hook === 'string' ? requireSearch(dir, [hook]) : hook)\<close>
  on the elements of the array: the callback is applied from the left, and the first
  error it throws ends the mapping.
\<close>

fun mapHooks :: "(string \<Rightarrow> jsval outcome) \<Rightarrow> jsval list \<Rightarrow> jsval list outcome" where
  "mapHooks search [] = Ok []"
| "mapHooks search (hook # hooks) =
     (case (case hook of JStr s \<Rightarrow> search s | _ \<Rightarrow> Ok hook) of
        Ok v \<Rightarrow>
          (case mapHooks search hooks of
             Ok vs \<Rightarrow> Ok (v # vs)
           | Exit n \<Rightarrow> Exit n
           | Throw e \<Rightarrow> Throw e)
      | Exit n \<Rightarrow> Exit n
      | Throw e \<Rightarrow> Throw e)"

text \<open>
  \<^verbatim>\<open>resolveHooks\<close>.  A hook list is the list of the elements of the array, or
  \<open>None\<close> when the property is missing or falsy; a truthy value that is not an array is
  excluded by the type.
\<close>

definition resolveHooks ::
  "(string \<Rightarrow> string \<Rightarrow> jsval option) \<Rightarrow> jsval list option \<Rightarrow> string \<Rightarrow> jsval list outcome" where
  "resolveHooks modules hooks dir =
     (case hooks of
        Some hs \<Rightarrow> mapHooks (\<lambda>hook. requireSearch modules dir [hook]) hs
      | None \<Rightarrow> Ok [])"

text \<open>
  For stating what the resolution yields: the value an entry stands for, given what the
  search finds.
\<close>

definition hookValue :: "(string \<Rightarrow> jsval option) \<Rightarrow> jsval \<Rightarrow> jsval" where
  "hookValue found hook =
     (case hook of
        JStr s \<Rightarrow> (case found s of Some v \<Rightarrow> v | None \<Rightarrow> hook)
      | _ \<Rightarrow> hook)"

text \<open>
  \<^verbatim>\<open>forgeConfig.electronPackagerConfig\<close>: the three hook lists, and the other
  properties of the object (none of them under the name of a hook list); and the
  options object handed to the packaging engine, laid out the same way.
\<close>

record packagerConfig =
  afterCopy :: "jsval list option"
  afterExtract :: "jsval list option"
  afterPrune :: "jsval list option"
  others :: props

record forgeConfig =
  electronPackagerConfig :: packagerConfig

record packageOpts =
  optAfterCopy :: "jsval list"
  optAfterExtract :: "jsval list"
  optAfterPrune :: "jsval list"
  options :: props

text \<open>
  What package calls and this development does not look into.  The engine reports
  whether it has run the \<^verbatim>\<open>afterPrune\<close> hooks, the first of which sets
  \<^verbatim>\<open>packagerSpinner\<close>.
\<close>

record pkgExt =
  resolveDir :: "string \<Rightarrow> world \<Rightarrow> string option"
  requireResolve :: "world \<Rightarrow> string \<Rightarrow> string outcome"
  getForgeConfig :: "string \<Rightarrow> world \<Rightarrow> forgeConfig outcome"
  modules :: "string \<Rightarrow> string \<Rightarrow> jsval option"
  runHook :: "forgeConfig \<Rightarrow> string \<Rightarrow> world \<Rightarrow> unit outcome \<times> world"
  packager :: "packageOpts \<Rightarrow> world \<Rightarrow> bool outcome \<times> world"

text \<open>
  Modelled from the spec: \<^verbatim>\<open>util/ora\<close> is not among the sources.  The spec has the
  spinners report progress; \<^verbatim>\<open>realOra\<close> is taken to show the label, \<^verbatim>\<open>fakeOra\<close>
  nothing.
\<close>

definition ora :: "bool \<Rightarrow> string \<Rightarrow> world \<Rightarrow> world" where
  "ora interactive label w = (if interactive then consoleLog label w else w)"

text \<open>The label of line 273.\<close>

definition prepareLabel :: "string \<Rightarrow> string" where
  "prepareLabel arch =
     ''Preparing to Package Application for arch: '' @ (if arch = ''all'' then ''ia32'' else arch)"

text \<open>
  Lines 291 to 330.  The hook lists are resolved in the order of the object literal,
  then \<^verbatim>\<open>electronVersion\<close> is read; \<^verbatim>\<open>Object.assign\<close> lets the last source win,
  and an \<^verbatim>\<open>electronVersion\<close> of \<^verbatim>\<open>undefined\<close> hides an earlier one.
\<close>

definition assemblePackageOpts ::
  "(string \<Rightarrow> string \<Rightarrow> jsval option) \<Rightarrow> packagerConfig \<Rightarrow> jsval \<Rightarrow> string \<Rightarrow> string
     \<Rightarrow> string \<Rightarrow> string \<Rightarrow> packageOpts outcome" where
  "assemblePackageOpts mods pConfig packageJSON dir arch platform outDir =
     (case resolveHooks mods (afterCopy pConfig) dir of
        Ok copyHooks \<Rightarrow>
          (case resolveHooks mods (afterExtract pConfig) dir of
             Ok extractHooks \<Rightarrow>
               (case resolveHooks mods (afterPrune pConfig) dir of
                  Ok pruneHooks \<Rightarrow>
                    (case getProp packageJSON ''devDependencies'' of
                       None \<Rightarrow>
                         Throw (TypeError ''Cannot read property electron-prebuilt-compile of undefined'')
                     | Some JNull \<Rightarrow>
                         Throw (TypeError ''Cannot read property electron-prebuilt-compile of null'')
                     | Some devDependencies \<Rightarrow>
                         Ok \<lparr>optAfterCopy =
                               [JFun (Internal ''afterCopy: remove tests and .bin''),
                                JFun (Internal ''afterCopy: packagerCompileHook''),
                                JFun (Internal ''afterCopy: strip config.forge'')] @ copyHooks,
                             optAfterExtract = extractHooks,
                             optAfterPrune =
                               [JFun (Internal ''afterPrune: rebuildHook'')] @ pruneHooks,
                             options =
                               AList.update ''quiet'' (JBool True)
                                 ((case getProp devDependencies ''electron-prebuilt-compile'' of
                                     Some v \<Rightarrow> AList.update ''electronVersion'' v
                                   | None \<Rightarrow> AList.delete ''electronVersion'')
                                    (objectAssign
                                       (objectAssign
                                          [(''asar'', JBool False), (''overwrite'', JBool True)]
                                          (others pConfig))
                                       [(''dir'', JStr dir), (''arch'', JStr arch),
                                        (''platform'', JStr platform), (''out'', JStr outDir)]))\<rparr>)
                | Exit n \<Rightarrow> Exit n
                | Throw e \<Rightarrow> Throw e)
           | Exit n \<Rightarrow> Exit n
           | Throw e \<Rightarrow> Throw e)
      | Exit n \<Rightarrow> Exit n
      | Throw e \<Rightarrow> Throw e)"

text \<open>
  Lines 331 to 334.  \<^verbatim>\<open>typeof null\<close> is \<^verbatim>\<open>'object'\<close> too.  No hook has run yet,
  so \<^verbatim>\<open>packagerSpinner\<close> is still \<^verbatim>\<open>undefined\<close> when its \<^verbatim>\<open>fail\<close> is called.
\<close>

definition checkAsar :: "packageOpts \<Rightarrow> unit outcome" where
  "checkAsar packageOpts =
     (case map_of (options packageOpts) ''asar'' of
        Some JNull \<Rightarrow> Throw (TypeError ''Cannot read property unpack of null'')
      | Some (JObj c ps) \<Rightarrow>
          (if truthy (map_of ps ''unpack'')
           then Throw (TypeError ''Cannot read property fail of undefined'')
           else Ok ())
      | _ \<Rightarrow> Ok ())"

text \<open>Lines 336 to 345, once the options stand.\<close>

definition runPackager ::
  "pkgExt \<Rightarrow> forgeConfig \<Rightarrow> packageOpts \<Rightarrow> world \<Rightarrow> unit outcome \<times> world" where
  "runPackager px forgeConfig packageOpts w =
     andThen (runHook px forgeConfig ''generateAssets'' w) (\<lambda>_ w1.
     andThen (runHook px forgeConfig ''prePackage'' w1) (\<lambda>_ w2.
     andThen (packager px packageOpts w2) (\<lambda>pruned w3.
     andThen (runHook px forgeConfig ''postPackage'' w3) (\<lambda>_ w4.
       if pruned then (Ok (), w4)
       else (Throw (TypeError ''Cannot read property succeed of undefined''), w4)))))"

text \<open>
  The default export of the packaging module.  \<open>outDir\<close> is
  \<^verbatim>\<open>providedOptions.outDir\<close>, \<open>None\<close> when it is missing or falsy.
\<close>

definition packageProject ::
  "ext \<Rightarrow> pkgExt \<Rightarrow> string \<Rightarrow> bool \<Rightarrow> string \<Rightarrow> string \<Rightarrow> string option \<Rightarrow> world
     \<Rightarrow> unit outcome \<times> world" where
  "packageProject x px dir interactive arch platform outDirOpt w =
     (let outDir = (case outDirOpt of Some out \<Rightarrow> out | None \<Rightarrow> path_resolve (cwd w) [dir, ''out'']);
          w1 = ora interactive (prepareLabel arch) w
      in case resolveDir px dir w1 of
           None \<Rightarrow> (Throw (Thrown ''Failed to locate compilable Electron application''), w1)
         | Some dir' \<Rightarrow>
             andThen (readPackageJSON x dir' w1, w1) (\<lambda>packageJSON w2.
               case packageJSON of
                 JNull \<Rightarrow> (Throw (TypeError ''Cannot read property main of null''), w2)
               | _ \<Rightarrow>
                 (case getProp packageJSON ''main'' of
                    Some (JStr main) \<Rightarrow>
                      andThen (requireResolve px w2 (path_resolve (cwd w2) [dir', main]), w2)
                        (\<lambda>resolved w3.
                           if path_dirname resolved = dir'
                           then (Throw (Thrown ''The entry point to your application (\"packageJSON.main\") must be in a subfolder not in the top level directory''),
                                 consoleLog (''Entry point: '' @ main) w3)
                           else
                             andThen (getForgeConfig px dir' w3, w3) (\<lambda>forgeConfig w4.
                             andThen (assemblePackageOpts (modules px)
                                        (electronPackagerConfig forgeConfig)
                                        packageJSON dir' arch platform outDir, w4)
                               (\<lambda>packageOpts w5.
                             andThen (checkAsar packageOpts, w5) (\<lambda>_ w6.
                               runPackager px forgeConfig packageOpts w6))))
                  | _ \<Rightarrow> (Throw (TypeError ''Path must be a string''), w2))))"

text \<open>Collaborators, a module tree and a project used as concrete inputs below.\<close>

definition demoModules :: "string \<Rightarrow> string \<Rightarrow> jsval option" where
  "demoModules dir name =
     (if name = ''hooks/sign'' then Some (JFun (Given ''hooks/sign'')) else None)"

definition demoPackagerConfig :: packagerConfig where
  "demoPackagerConfig =
     \<lparr>afterCopy = Some [JFun (Given ''notify''), JStr ''hooks/sign''],
      afterExtract = None,
      afterPrune = None,
      others = [(''arch'', JStr ''x64''), (''icon'', JStr ''app.icns'')]\<rparr>"

definition demoPkgExt :: pkgExt where
  "demoPkgExt =
     \<lparr>resolveDir = (\<lambda>dir w. Some dir),
      requireResolve = (\<lambda>w p. case nodes w p of Some (File t) \<Rightarrow> Ok p | _ \<Rightarrow> Throw (ENOENT p)),
      getForgeConfig = (\<lambda>dir w. Ok \<lparr>electronPackagerConfig = demoPackagerConfig\<rparr>),
      modules = demoModules,
      runHook = (\<lambda>forgeConfig name w. (Ok (), w)),
      packager = (\<lambda>packageOpts w. (Ok True, consoleLog ''packager called'' w))\<rparr>"

definition rootMainWorld :: world where
  "rootMainWorld =
     \<lparr>cwd = ''/'',
      nodes = [''/app'' \<mapsto> Dir,
               ''/app/package.json'' \<mapsto> File ''{root-main}'',
               ''/app/index.js'' \<mapsto> File ''module.exports = 1''],
      console = []\<rparr>"

definition rootMainCwdWorld :: world where
  "rootMainCwdWorld = rootMainWorld\<lparr>cwd := ''/app''\<rparr>"

definition rootMainManifest :: jsval where
  "rootMainManifest =
     JObj PlainObject
       [(''main'', JStr ''index.js''),
        (''devDependencies'',
           JObj PlainObject [(''electron-prebuilt-compile'', JStr ''1.4.15'')])]"

section \<open>The generic archive maker (\<^verbatim>\<open>src/makers/generic/zip.js\<close>)\<close>

text \<open>
  Modelled from the spec: \<^verbatim>\<open>util/ensure-output\<close> is not among the sources.  The spec
  has the maker create the destination directory if absent before writing;
  \<^verbatim>\<open>ensureFile\<close> is taken to create the directory of the file it is given.
\<close>

definition ensureFile :: "string \<Rightarrow> world \<Rightarrow> unit outcome \<times> world" where
  "ensureFile file w =
     (case nodes w (path_dirname file) of
        None \<Rightarrow> (Ok (), w\<lparr>nodes := (nodes w)(path_dirname file \<mapsto> Dir)\<rparr>)
      | Some Dir \<Rightarrow> (Ok (), w)
      | Some (File t) \<Rightarrow> (Throw (Thrown (''EEXIST: '' @ path_dirname file)), w))"

text \<open>
  The default export.  \<open>crossZip\<close> is \<^verbatim>\<open>zip\<close> of \<^verbatim>\<open>cross-zip\<close>, given the directory to archive and
  the file to write; \<open>version\<close> is the text \<^verbatim>\<open>packageJSON.version\<close> has in the
  template literal.
\<close>

definition zipMaker ::
  "(string \<Rightarrow> string \<Rightarrow> world \<Rightarrow> unit outcome \<times> world) \<Rightarrow> string \<Rightarrow> string \<Rightarrow> string \<Rightarrow> string
     \<Rightarrow> world \<Rightarrow> string list outcome \<times> world" where
  "zipMaker crossZip dir appName targetPlatform version w =
     (let zipDir = (if targetPlatform = ''darwin''
                    then path_resolve (cwd w) [dir, appName @ ''.app'']
                    else dir);
          zipPath = path_resolve (cwd w)
                      [dir, ''../make'', path_basename dir @ ''-'' @ version @ ''.zip'']
      in andThen (ensureFile zipPath w) (\<lambda>_ w1.
         andThen (crossZip zipDir zipPath w1) (\<lambda>_ w2. (Ok [zipPath], w2))))"

text \<open>
  A segment of a normalised path: not empty, without separator, neither \<^verbatim>\<open>.\<close> nor
  \<^verbatim>\<open>..\<close>.  A normalised absolute path is \<open>renderPath\<close> of such segments.
\<close>

definition properSeg :: "string \<Rightarrow> bool" where
  "properSeg s = (s \<noteq> [] \<and> CHR ''/'' \<notin> set s \<and> s \<noteq> ''.'' \<and> s \<noteq> ''..'')"

text \<open>An archiver and a staged build used as concrete inputs below.\<close>

definition demoZip :: "string \<Rightarrow> string \<Rightarrow> world \<Rightarrow> unit outcome \<times> world" where
  "demoZip zipDir zipPath w =
     (if nodes w (path_dirname zipPath) = Some Dir
      then (Ok (), w\<lparr>nodes := (nodes w)(zipPath \<mapsto> File (''archive of '' @ zipDir))\<rparr>)
      else (Throw (ENOENT zipPath), w))"

definition buildWorld :: world where
  "buildWorld =
     \<lparr>cwd = ''/home/me'',
      nodes = [''/tmp/build'' \<mapsto> Dir, ''/tmp/build/MyApp'' \<mapsto> Dir,
               ''/tmp/build/MyApp/MyApp.app'' \<mapsto> Dir],
      console = []\<rparr>"

section \<open>The configuration resolver (\<^verbatim>\<open>src/unnamed/part_000\<close>)\<close>

text \<open>
  \<^verbatim>\<open>merge\<close> of lodash 4, which the resolver imports, on the values above, as its
  documentation has it: the properties of each source are merged into the destination
  from left to right; arrays and plain objects are merged recursively, anything else is
  assigned.  \<open>baseMergeDeep\<close> takes the destination's value under the key (\<open>None\<close>
  when there is none) and the source's value, and gives the value stored.  A source
  that is an object or an array is merged into a destination value that is an object or
  an array too (a plain object into an array as well); an array is merged into a plain
  object only when that is array-like, after copying it to an array; in every other
  case the source value is stored, a deep copy of it when it is an object or an array.
\<close>

definition isArrayLike :: "props \<Rightarrow> bool" where
  "isArrayLike obj =
     (case map_of obj ''length'' of
        Some (JNum n) \<Rightarrow> 0 \<le> n \<and> n \<le> 9007199254740991
      | _ \<Rightarrow> False)"

definition copyArray :: "props \<Rightarrow> props" where
  "copyArray obj =
     (case map_of obj ''length'' of
        Some (JNum n) \<Rightarrow>
          List.map_filter
            (\<lambda>i. map_option (\<lambda>v. (showNat i, v)) (map_of obj (showNat i))) [0..<nat n]
      | _ \<Rightarrow> [])"

fun baseMerge :: "props \<Rightarrow> props \<Rightarrow> props"
  and baseMergeDeep :: "jsval option \<Rightarrow> jsval \<Rightarrow> jsval" where
  "baseMerge object [] = object"
| "baseMerge object ((key, srcValue) # source) =
     baseMerge (AList.update key (baseMergeDeep (map_of object key) srcValue) object) source"
| "baseMergeDeep objValue (JObj PlainObject src) =
     (case objValue of
        Some (JObj c obj) \<Rightarrow> JObj c (baseMerge obj src)
      | _ \<Rightarrow> JObj PlainObject src)"
| "baseMergeDeep objValue (JObj ArrayObject src) =
     (case objValue of
        Some (JObj ArrayObject obj) \<Rightarrow> JObj ArrayObject (baseMerge obj src)
      | Some (JObj PlainObject obj) \<Rightarrow>
          (if isArrayLike obj then JObj ArrayObject (baseMerge (copyArray obj) src)
           else JObj ArrayObject src)
      | _ \<Rightarrow> JObj ArrayObject src)"
| "baseMergeDeep objValue srcValue = srcValue"

definition merge :: "props \<Rightarrow> props list \<Rightarrow> props" where
  "merge object sources = foldl baseMerge object sources"

text \<open>
  The default export: \<^verbatim>\<open>config.shared\<close> and \<^verbatim>\<open>config.maker\<close>, two objects, and the
  three runtime fields are merged into a new object.
\<close>

definition resolveConfig :: "props \<Rightarrow> props \<Rightarrow> string \<Rightarrow> string \<Rightarrow> string \<Rightarrow> props" where
  "resolveConfig shared maker pkgArch dir outPath =
     merge [] [shared, maker,
               [(''arch'', JStr pkgArch),
                (''dest'', JStr (path_dirname outPath)),
                (''src'', JStr dir)]]"

text \<open>A shared and a maker-specific configuration used as concrete inputs below.\<close>

definition demoShared :: props where
  "demoShared =
     [(''options'',
         JObj PlainObject [(''maintainer'', JStr ''Ann''), (''section'', JStr ''misc'')]),
      (''categories'',
         JObj ArrayObject [(''0'', JStr ''Development''), (''1'', JStr ''Office'')]),
      (''arch'', JStr ''ia32''),
      (''icon'', JStr ''shared.png'')]"

definition demoMaker :: props where
  "demoMaker =
     [(''options'',
         JObj PlainObject [(''section'', JStr ''devel''), (''homepage'', JStr ''example.org'')]),
      (''categories'', JObj ArrayObject [(''0'', JStr ''Utility'')]),
      (''icon'', JStr ''maker.png'')]"

section \<open>Properties of the ignore-file step\<close>

lemma str_includes_iff: "str_includes h n \<longleftrightarrow> (\<exists>ps ss. h = ps @ n @ ss)"
proof (induction h)
  case Nil
  then show ?case by auto
next
  case (Cons c cs)
  show ?case
  proof
    assume "str_includes (c # cs) n"
    then consider "prefix n (c # cs)" | "str_includes cs n" by auto
    then show "\<exists>ps ss. c # cs = ps @ n @ ss"
    proof cases
      case 1
      then obtain ss where "c # cs = n @ ss" by (auto simp: prefix_def)
      then have "c # cs = [] @ n @ ss" by simp
      then show ?thesis by blast
    next
      case 2
      then obtain ps ss where "cs = ps @ n @ ss" using Cons.IH by blast
      then have "c # cs = (c # ps) @ n @ ss" by simp
      then show ?thesis by blast
    qed
  next
    assume "\<exists>ps ss. c # cs = ps @ n @ ss"
    then obtain ps ss where e: "c # cs = ps @ n @ ss" by blast
    show "str_includes (c # cs) n"
    proof (cases ps)
      case Nil
      with e have "prefix n (c # cs)" by (simp add: prefix_def)
      then show ?thesis by simp
    next
      case (Cons a as)
      with e have "cs = as @ n @ ss" by simp
      then show ?thesis using Cons.IH by auto
    qed
  qed
qed

lemma str_includes_append_out: "str_includes (g @ CHR 0x0A # ''out/'') ''out''"
proof -
  have "g @ CHR 0x0A # ''out/'' = (g @ [CHR 0x0A]) @ ''out'' @ ''/''" by simp
  then show ?thesis unfolding str_includes_iff by blast
qed

lemma occurrences_fresh:
  "\<not> str_includes g ''out'' \<Longrightarrow> occurrences (g @ CHR 0x0A # ''out/'') ''out/'' = 1"
proof (induction g)
  case Nil
  show ?case by simp
next
  case (Cons c cs)
  from Cons.prems have np: "\<not> prefix ''out'' (c # cs)" and ni: "\<not> str_includes cs ''out''"
    by auto
  have "prefix ''out/'' (c # cs) \<Longrightarrow> prefix ''out'' (c # cs)"
    by (auto simp: prefix_def)
  then have "\<not> prefix ''out/'' ((c # cs) @ CHR 0x0A # ''out/'')"
    using np unfolding prefix_append
    by (auto simp: Cons_eq_append_conv append_eq_Cons_conv)
  then show ?case using Cons.IH[OF ni] by simp
qed

lemma fixGitignore_file:
  assumes "nodes w (path_resolve (cwd w) [dir, ''.gitignore'']) = Some (File g)"
  shows "fixGitignore dir w =
           (Ok (), if str_includes g ''out'' then w
                   else w\<lparr>nodes := (nodes w)(path_resolve (cwd w) [dir, ''.gitignore'']
                                       \<mapsto> File (g @ CHR 0x0A # ''out/''))\<rparr>)"
  using assms by (simp add: fixGitignore_def fs_exists_def fs_readFile_def fs_writeFile_def)

text \<open>
  C6, as the code has it.  When the ignore file is a regular file with content \<open>g\<close>, the
  step appends a line break and \<^verbatim>\<open>out/\<close> exactly when \<open>g\<close> does not contain
  \<^verbatim>\<open>out\<close> anywhere, and changes nothing otherwise; a second run changes nothing; a
  content without \<^verbatim>\<open>out\<close> holds \<^verbatim>\<open>out/\<close> exactly once afterwards.
\<close>

theorem import_gitignore_out_entry:
  assumes "nodes w (path_resolve (cwd w) [dir, ''.gitignore'']) = Some (File g)"
  shows "fixGitignore dir w =
           (Ok (), if str_includes g ''out'' then w
                   else w\<lparr>nodes := (nodes w)(path_resolve (cwd w) [dir, ''.gitignore'']
                                       \<mapsto> File (g @ CHR 0x0A # ''out/''))\<rparr>)
         \<and> fixGitignore dir (snd (fixGitignore dir w)) = (Ok (), snd (fixGitignore dir w))
         \<and> (\<not> str_includes g ''out''
              \<longrightarrow> occurrences (g @ CHR 0x0A # ''out/'') ''out/'' = 1)"
proof (cases "str_includes g ''out''")
  case True
  then show ?thesis using fixGitignore_file[OF assms] by simp
next
  case False
  let ?p = "path_resolve (cwd w) [dir, ''.gitignore'']"
  let ?w' = "w\<lparr>nodes := (nodes w)(?p \<mapsto> File (g @ CHR 0x0A # ''out/''))\<rparr>"
  have first: "fixGitignore dir w = (Ok (), ?w')"
    using False fixGitignore_file[OF assms] by simp
  have "nodes ?w' (path_resolve (cwd ?w') [dir, ''.gitignore''])
          = Some (File (g @ CHR 0x0A # ''out/''))"
    by simp
  from fixGitignore_file[OF this] have "fixGitignore dir ?w' = (Ok (), ?w')"
    using str_includes_append_out[of g] by simp
  then show ?thesis using first False occurrences_fresh[OF False] by simp
qed

theorem import_gitignore_out_entry_witness:
  "nodes freshWorld (path_resolve (cwd freshWorld) [''/app'', ''.gitignore''])
     = Some (File ''node_modules'')
   \<and> \<not> str_includes ''node_modules'' ''out''
   \<and> nodes (snd (fixGitignore ''/app'' freshWorld)) ''/app/.gitignore''
       = Some (File (''node_modules'' @ CHR 0x0A # ''out/''))
   \<and> occurrences (''node_modules'' @ CHR 0x0A # ''out/'') ''out/'' = 1"
proof -
  have p: "path_resolve (cwd freshWorld) [''/app'', ''.gitignore''] = ''/app/.gitignore''"
    by (simp add: freshWorld_def path_resolve_def renderPath_def)
  have h: "nodes freshWorld (path_resolve (cwd freshWorld) [''/app'', ''.gitignore''])
             = Some (File ''node_modules'')"
    unfolding p by (simp add: freshWorld_def)
  have n: "\<not> str_includes ''node_modules'' ''out''"
    by (simp add: prefix_Cons)
  show ?thesis
    using import_gitignore_out_entry[OF h] h n unfolding p by simp
qed

text \<open>
  C6 as stated fails: the content \<^verbatim>\<open>layout\<close> does not hold the entry \<^verbatim>\<open>out/\<close>, and
  the step leaves the file as it is.
\<close>

theorem import_gitignore_counterexample:
  "\<not> str_includes ''layout'' ''out/''
   \<and> fixGitignore ''/app'' layoutWorld = (Ok (), layoutWorld)"
proof -
  have p: "path_resolve (cwd layoutWorld) [''/app'', ''.gitignore''] = ''/app/.gitignore''"
    by (simp add: layoutWorld_def path_resolve_def renderPath_def)
  have h: "nodes layoutWorld (path_resolve (cwd layoutWorld) [''/app'', ''.gitignore''])
             = Some (File ''layout'')"
    unfolding p by (simp add: layoutWorld_def)
  have i: "str_includes ''layout'' ''out''"
    by (simp add: prefix_Cons)
  have "\<not> str_includes ''layout'' ''out/''"
    by (simp add: prefix_Cons)
  then show ?thesis using fixGitignore_file[OF h] i by simp
qed

section \<open>Properties of the path functions\<close>

lemma splitPath_ne: "splitPath s \<noteq> []"
  by (induction s) (auto split: list.splits)

lemma splitPath_noslash: "CHR ''/'' \<notin> set s \<Longrightarrow> splitPath s = [s]"
  by (induction s) auto

lemma splitPath_append_slash: "splitPath (a @ CHR ''/'' # b) = splitPath a @ splitPath b"
proof (induction a)
  case Nil
  show ?case by simp
next
  case (Cons c a)
  then show ?case using splitPath_ne[of a] by (cases "splitPath a") auto
qed

lemma splitPath_segments:
  "\<forall>s \<in> set segs. CHR ''/'' \<notin> set s \<Longrightarrow>
     splitPath (concat (map (\<lambda>s. CHR ''/'' # s) segs) @ CHR ''/'' # rest)
       = [] # segs @ splitPath rest"
proof (induction segs rule: rev_induct)
  case Nil
  show ?case by simp
next
  case (snoc s segs)
  have "concat (map (\<lambda>s. CHR ''/'' # s) (segs @ [s])) @ CHR ''/'' # rest
          = concat (map (\<lambda>s. CHR ''/'' # s) segs) @ CHR ''/'' # (s @ CHR ''/'' # rest)"
    by simp
  then show ?case
    using snoc by (simp add: splitPath_append_slash splitPath_noslash del: append_assoc)
qed

lemma normalizeSegs_proper:
  "\<forall>s \<in> set xs. properSeg s \<Longrightarrow> normalizeSegs acc (xs @ ys) = normalizeSegs (acc @ xs) ys"
  by (induction xs arbitrary: acc) (auto simp: properSeg_def)

lemma resolve_under_absolute:
  assumes segs: "\<forall>s \<in> set segs. properSeg s"
    and tail: "tail \<noteq> []" "hd tail \<noteq> CHR ''/''"
  shows "path_resolve c [renderPath segs, tail]
           = renderPath (normalizeSegs segs (splitPath tail))"
proof -
  have ns: "\<forall>s \<in> set segs. CHR ''/'' \<notin> set s" using segs by (auto simp: properSeg_def)
  have abs: "renderPath segs \<noteq> []" "hd (renderPath segs) = CHR ''/''"
    by (cases segs; simp add: renderPath_def)+
  have loop: "resolveLoop (rev [renderPath segs, tail] @ [c]) []
                = renderPath segs @ CHR ''/'' # tail @ ''/''"
    using tail abs by simp
  have sp: "splitPath (renderPath segs @ CHR ''/'' # tail @ ''/'')
              = (if segs = [] then [[], []] else [] # segs) @ splitPath tail @ [[]]"
  proof (cases "segs = []")
    case True
    then show ?thesis
      using splitPath_append_slash[of "''/''" "tail @ ''/''"] splitPath_append_slash[of tail "[]"]
      by (simp add: renderPath_def)
  next
    case False
    then show ?thesis
      using splitPath_segments[OF ns, of "tail @ ''/''"] splitPath_append_slash[of tail "[]"]
      by (simp add: renderPath_def)
  qed
  have "normalizeSegs [] ((if segs = [] then [[], []] else [] # segs) @ splitPath tail @ [[]])
          = normalizeSegs segs (splitPath tail @ [[]])"
    using normalizeSegs_proper[OF segs, of "[]" "splitPath tail @ [[]]"] by auto
  moreover have "normalizeSegs acc (xs @ [[]]) = normalizeSegs acc xs" for acc xs
    by (induction xs arbitrary: acc) auto
  ultimately show ?thesis
    unfolding path_resolve_def loop sp by simp
qed

lemma path_basename_render:
  assumes "segs \<noteq> []" "\<forall>s \<in> set segs. properSeg s"
  shows "path_basename (renderPath segs) = last segs"
proof -
  have ns: "\<forall>s \<in> set (butlast segs). CHR ''/'' \<notin> set s"
    using assms by (auto simp: properSeg_def dest: in_set_butlastD)
  have l: "CHR ''/'' \<notin> set (last segs)" "last segs \<noteq> []"
    using assms by (auto simp: properSeg_def)
  have "renderPath segs = concat (map (\<lambda>s. CHR ''/'' # s) (butlast segs)) @ CHR ''/'' # last segs"
    using assms(1) by (induction segs) (auto simp: renderPath_def)
  then have "splitPath (renderPath segs) = [] # butlast segs @ [last segs]"
    using splitPath_segments[OF ns, of "last segs"] l by (simp add: splitPath_noslash)
  moreover have "filter (\<lambda>s. s \<noteq> []) ([] # butlast segs @ [last segs])
                   = filter (\<lambda>s. s \<noteq> []) (butlast segs) @ [last segs]"
    using l by simp
  moreover have "(case zs of [] \<Rightarrow> [] | s # ss \<Rightarrow> last (s # ss)) = last zs"
    if "zs \<noteq> []" for zs :: "string list"
    using that by (cases zs) auto
  ultimately show ?thesis
    by (simp add: path_basename_def)
qed

lemma path_dirname_render:
  assumes "\<forall>s \<in> set xs. properSeg s" "properSeg y"
  shows "path_dirname (renderPath (xs @ [y])) = renderPath xs"
proof -
  let ?pre = "concat (map (\<lambda>s. CHR ''/'' # s) xs)"
  have r: "renderPath (xs @ [y]) = ?pre @ CHR ''/'' # y"
    by (simp add: renderPath_def)
  have y: "y \<noteq> []" "CHR ''/'' \<notin> set y" using assms by (auto simp: properSeg_def)
  have d1: "dropWhile (\<lambda>c. c = CHR ''/'') (rev (?pre @ CHR ''/'' # y)) = rev (?pre @ CHR ''/'' # y)"
    using y by (cases y rule: rev_cases) auto
  have ny: "\<And>c. c \<in> set (rev y) \<Longrightarrow> c \<noteq> CHR ''/''"
    using y by auto
  have d2: "dropWhile (\<lambda>c. c \<noteq> CHR ''/'') (rev (?pre @ CHR ''/'' # y)) = CHR ''/'' # rev ?pre"
    using dropWhile_append2[of "rev y" "\<lambda>c. c \<noteq> CHR ''/''" "CHR ''/'' # rev ?pre"] ny
    by simp
  have hd: "hd (?pre @ CHR ''/'' # y) = CHR ''/''"
    by (cases xs) auto
  show ?thesis
  proof (cases xs)
    case Nil
    then show ?thesis
      unfolding r path_dirname_def d1 d2 by (simp add: renderPath_def)
  next
    case (Cons x xs')
    then have "x \<noteq> []" using assms by (auto simp: properSeg_def)
    then have len: "length ?pre \<ge> 2" using Cons by (cases x) auto
    have b: "rev (CHR ''/'' # rev ?pre) = ?pre @ ''/''" by simp
    have bl: "butlast (?pre @ ''/'') = ?pre" by (rule butlast_snoc)
    have rx: "renderPath xs = ?pre" using Cons by (simp add: renderPath_def)
    have ne: "?pre @ CHR ''/'' # y \<noteq> []" by simp
    show ?thesis
      unfolding r path_dirname_def d1 d2 b Let_def bl rx using len ne Cons by auto
  qed
qed

section \<open>Properties of the dependency migration\<close>

lemma getProp_deleteProp: "getProp (deleteProp k v) k' = (if k' = k then None else getProp v k')"
  by (cases v) (auto simp: AList.delete_conv')

lemma getProp_orEmptyObject: "getProp (orEmptyObject (map_of ps f)) k = entry ps f k"
proof (cases "map_of ps f")
  case None then show ?thesis by (simp add: orEmptyObject_def entry_def)
next
  case (Some v) then show ?thesis by (cases v) (auto simp: orEmptyObject_def entry_def)
qed

lemma scanKeys_props:
  assumes "scanKeys interactive a i keys (d, dd, en) = (d', dd', en')"
  shows "(\<forall>k. getProp d' k = (if getProp d' k = None then None else getProp d k))
       \<and> (\<forall>k. getProp dd' k = (if getProp dd' k = None then None else getProp dd k))
       \<and> (\<forall>k. isLegacyRuntime k \<and> k \<in> set keys \<longrightarrow> getProp d' k = None \<and> getProp dd' k = None)
       \<and> (\<forall>k. \<not> isLegacyRuntime k \<and> \<not> isBuildTool k \<longrightarrow> getProp d' k = getProp d k \<and> getProp dd' k = getProp dd k)
       \<and> en' = (if filter isLegacyRuntime keys = [] then en else Some (last (filter isLegacyRuntime keys)))
       \<and> (\<forall>c ps. d = JObj c ps \<longrightarrow> (\<exists>ps'. d' = JObj c ps'))
       \<and> (\<forall>c ps. dd = JObj c ps \<longrightarrow> (\<exists>ps'. dd' = JObj c ps'))"
  using assms
proof (induction keys arbitrary: i d dd en)
  case Nil then show ?case by simp
next
  case (Cons key keys)
  show ?case
  proof (cases "isLegacyRuntime key")
    case True
    with Cons.prems have s: "scanKeys interactive a (Suc i) keys (deleteProp key d, deleteProp key dd, Some key) = (d', dd', en')"
      by (simp add: isLegacyRuntime_def)
    note ih = Cons.IH[OF s]
    show ?thesis using ih True
      apply (intro conjI allI impI)
      apply (metis getProp_deleteProp)
      apply (metis getProp_deleteProp)
      apply (metis getProp_deleteProp set_ConsD)
      apply (metis getProp_deleteProp set_ConsD)
      apply (metis getProp_deleteProp)
      apply (metis getProp_deleteProp)
      apply simp
      apply (metis deleteProp.simps(1))
      apply (metis deleteProp.simps(1))
      done
  next
    case False
    show ?thesis
    proof (cases "isBuildTool key \<and> (\<not> interactive \<or> shouldRemoveDependency a i key)")
      case True
      with False Cons.prems have s: "scanKeys interactive a (Suc i) keys (deleteProp key d, deleteProp key dd, en) = (d', dd', en')"
        by (auto simp add: isLegacyRuntime_def)
      note ih = Cons.IH[OF s]
      show ?thesis using ih True False
      apply (intro conjI allI impI)
      apply (metis getProp_deleteProp)
      apply (metis getProp_deleteProp)
      apply (metis getProp_deleteProp set_ConsD)
      apply (metis getProp_deleteProp set_ConsD)
      apply (metis getProp_deleteProp)
      apply (metis getProp_deleteProp)
      apply simp
      apply (metis deleteProp.simps(1))
      apply (metis deleteProp.simps(1))
      done
    next
      case nb: False
      with False Cons.prems have s: "scanKeys interactive a (Suc i) keys (d, dd, en) = (d', dd', en')"
        by (auto simp add: isLegacyRuntime_def split: if_splits)
      note ih = Cons.IH[OF s]
      show ?thesis using ih False
      apply (intro conjI allI impI)
      apply blast
      apply blast
      apply (metis set_ConsD)
      apply (metis set_ConsD)
      apply blast
      apply blast
      apply simp
      apply blast
      apply blast
      done
    qed
  qed
qed

lemma getProp_not_key: "k \<notin> set (objectKeys v) \<Longrightarrow> getProp v k = None"
  by (cases v) (auto simp: map_of_eq_None_iff)

lemma pinElectron_Some:
  assumes "readPackageJSON x (path_resolve (cwd w) [dir, ''node_modules'', name]) w = Ok epj"
    and "epj \<noteq> JNull"
  shows "pinElectron x dir (Some name) (JObj c dds) w =
           Ok (JObj c (case getProp epj ''version'' of
                         Some v \<Rightarrow> AList.update ''electron-prebuilt-compile'' v dds
                       | None \<Rightarrow> AList.delete ''electron-prebuilt-compile'' dds),
               getProp epj ''version'')"
  using assms by (cases epj; cases "getProp epj ''version''") (simp_all add: pinElectron_def)

lemma migrateDependencies_result:
  fixes ps :: props
  assumes dd: "orEmptyObject (map_of ps ''devDependencies'') = JObj c dds"
    and inst: "filter isLegacyRuntime (dependencyKeys ps) \<noteq> [] \<Longrightarrow>
                 readPackageJSON x (path_resolve (cwd w)
                     [dir, ''node_modules'', last (filter isLegacyRuntime (dependencyKeys ps))]) w
                   = Ok epj \<and> epj \<noteq> JNull"
  shows "\<exists>ps'. migrateDependencies x a dir interactive ps w =
              Ok (ps',
                  if filter isLegacyRuntime (dependencyKeys ps) = [] then None
                  else Some (last (filter isLegacyRuntime (dependencyKeys ps))),
                  if filter isLegacyRuntime (dependencyKeys ps) = [] then None
                  else getProp epj ''version'')
          \<and> (\<forall>k. isLegacyRuntime k \<longrightarrow>
                 entry ps' ''dependencies'' k = None \<and> entry ps' ''devDependencies'' k = None)
          \<and> (\<forall>k. \<not> isLegacyRuntime k \<and> \<not> isBuildTool k \<longrightarrow>
                 entry ps' ''dependencies'' k = entry ps ''dependencies'' k)
          \<and> (\<forall>k. \<not> isLegacyRuntime k \<and> \<not> isBuildTool k \<and> k \<noteq> ''electron-prebuilt-compile'' \<longrightarrow>
                 entry ps' ''devDependencies'' k = entry ps ''devDependencies'' k)
          \<and> (\<forall>k. entry ps' ''dependencies'' k \<noteq> None \<longrightarrow> entry ps ''dependencies'' k \<noteq> None)
          \<and> entry ps' ''devDependencies'' ''electron-prebuilt-compile'' =
              (if filter isLegacyRuntime (dependencyKeys ps) = []
               then entry ps ''devDependencies'' ''electron-prebuilt-compile''
               else getProp epj ''version'')"
proof -
  let ?d = "orEmptyObject (map_of ps ''dependencies'')"
  let ?dd = "orEmptyObject (map_of ps ''devDependencies'')"
  let ?keys = "dependencyKeys ps"
  let ?L = "filter isLegacyRuntime ?keys"
  obtain d' dd' en' where sc: "scanKeys interactive a 0 ?keys (?d, ?dd, None) = (d', dd', en')"
    by (metis prod_cases3)
  note P = scanKeys_props[OF sc]
  from P have en: "en' = (if ?L = [] then None else Some (last ?L))" by simp
  from P dd obtain dds' where dd': "dd' = JObj c dds'" by blast
  have legacy_gone: "getProp d' k = None \<and> getProp dd' k = None" if "isLegacyRuntime k" for k
  proof (cases "k \<in> set ?keys")
    case True with P that show ?thesis by blast
  next
    case False
    then have "getProp ?d k = None" "getProp ?dd k = None"
      by (auto simp: dependencyKeys_def getProp_not_key)
    with P show ?thesis by metis
  qed
  have keep: "getProp d' k = getProp ?d k \<and> getProp dd' k = getProp ?dd k"
    if "\<not> isLegacyRuntime k" "\<not> isBuildTool k" for k
    using P that by blast
  have nogain: "getProp ?d k \<noteq> None" if "getProp d' k \<noteq> None" for k
    using P that by metis
  have epc: "\<not> isLegacyRuntime ''electron-prebuilt-compile''" "\<not> isBuildTool ''electron-prebuilt-compile''"
    by (simp_all add: isLegacyRuntime_def isBuildTool_def buildToolPackages_def objectPrototypeNames_def)
  have m0: "migrateDependencies x a dir interactive ps w =
              (case pinElectron x dir en' dd' w of
                 Ok (devDependencies'', electronVersion) \<Rightarrow>
                   Ok (AList.update ''devDependencies'' devDependencies''
                         (AList.update ''dependencies'' d' ps), en', electronVersion)
               | Exit n \<Rightarrow> Exit n
               | Throw e \<Rightarrow> Throw e)"
    using sc by (simp add: migrateDependencies_def dependencyKeys_def Let_def)
  show ?thesis
  proof (cases "?L = []")
    case True
    let ?ps' = "AList.update ''devDependencies'' dd' (AList.update ''dependencies'' d' ps)"
    from en True have en0: "en' = None" by simp
    have m: "migrateDependencies x a dir interactive ps w = Ok (?ps', None, None)"
      by (simp only: m0 en0 pinElectron_def option.case outcome.case prod.case)
    have e1: "entry ?ps' ''dependencies'' k = getProp d' k" for k
      by (simp add: entry_def AList.update_conv')
    have e2: "entry ?ps' ''devDependencies'' k = getProp dd' k" for k
      by (simp add: entry_def AList.update_conv')
    show ?thesis
      apply (rule exI[of _ ?ps'])
      using m True legacy_gone keep nogain epc
      by (simp add: e1 e2 getProp_orEmptyObject)
  next
    case False
    from inst[OF False] have rd: "readPackageJSON x (path_resolve (cwd w)
          [dir, ''node_modules'', last ?L]) w = Ok epj" and nn: "epj \<noteq> JNull" by auto
    let ?dds'' = "(case getProp epj ''version'' of
                         Some v \<Rightarrow> AList.update ''electron-prebuilt-compile'' v dds'
                       | None \<Rightarrow> AList.delete ''electron-prebuilt-compile'' dds')"
    let ?ps' = "AList.update ''devDependencies'' (JObj c ?dds'') (AList.update ''dependencies'' d' ps)"
    from en False have en1: "en' = Some (last ?L)" by simp
    have m: "migrateDependencies x a dir interactive ps w = Ok (?ps', Some (last ?L), getProp epj ''version'')"
      by (simp only: m0 en1 dd' pinElectron_Some[OF rd nn, of c dds'] outcome.case prod.case)
    have e1: "entry ?ps' ''dependencies'' k = getProp d' k" for k
      by (simp add: entry_def AList.update_conv')
    have e2: "entry ?ps' ''devDependencies'' k =
                (if k = ''electron-prebuilt-compile'' then getProp epj ''version'' else getProp dd' k)" for k
      by (cases "getProp epj ''version''")
         (simp_all add: entry_def AList.update_conv' AList.delete_conv' dd')
    show ?thesis
      apply (rule exI[of _ ?ps'])
      using m False legacy_gone keep nogain epc
      by (simp add: e1 e2 getProp_orEmptyObject)
  qed
qed

text \<open>
  C3.  Whatever the mode and the answers, after the scan neither mapping has a key
  \<^verbatim>\<open>electron\<close> or \<^verbatim>\<open>electron-prebuilt\<close>, and every key that is neither one of
  these nor a build tool keeps its value (\<^verbatim>\<open>electron-prebuilt-compile\<close> apart).  When
  such a key was present, \<^verbatim>\<open>electron-prebuilt-compile\<close> holds the
  \<^verbatim>\<open>version\<close> of the manifest of the installed package, the one named by the last
  such key.  The installed manifest must be readable and \<^verbatim>\<open>devDependencies\<close>, once
  defaulted, an object; the step then returns.
\<close>

theorem import_removes_legacy_runtime:
  fixes ps :: props
  assumes "orEmptyObject (map_of ps ''devDependencies'') = JObj c dds"
    and "filter isLegacyRuntime (dependencyKeys ps) \<noteq> [] \<Longrightarrow>
           readPackageJSON x (path_resolve (cwd w)
               [dir, ''node_modules'', last (filter isLegacyRuntime (dependencyKeys ps))]) w
             = Ok epj \<and> epj \<noteq> JNull"
  shows "\<exists>ps'. migrateDependencies x a dir interactive ps w =
              Ok (ps',
                  if filter isLegacyRuntime (dependencyKeys ps) = [] then None
                  else Some (last (filter isLegacyRuntime (dependencyKeys ps))),
                  if filter isLegacyRuntime (dependencyKeys ps) = [] then None
                  else getProp epj ''version'')
          \<and> (\<forall>k. isLegacyRuntime k \<longrightarrow>
                 entry ps' ''dependencies'' k = None \<and> entry ps' ''devDependencies'' k = None)
          \<and> (\<forall>k. \<not> isLegacyRuntime k \<and> \<not> isBuildTool k \<longrightarrow>
                 entry ps' ''dependencies'' k = entry ps ''dependencies'' k)
          \<and> (\<forall>k. \<not> isLegacyRuntime k \<and> \<not> isBuildTool k \<and> k \<noteq> ''electron-prebuilt-compile'' \<longrightarrow>
                 entry ps' ''devDependencies'' k = entry ps ''devDependencies'' k)
          \<and> (filter isLegacyRuntime (dependencyKeys ps) \<noteq> [] \<longrightarrow>
                 entry ps' ''devDependencies'' ''electron-prebuilt-compile'' = getProp epj ''version'')"
proof -
  from migrateDependencies_result[OF assms, of a interactive]
  obtain ps' where
    "migrateDependencies x a dir interactive ps w =
       Ok (ps',
           if filter isLegacyRuntime (dependencyKeys ps) = [] then None
           else Some (last (filter isLegacyRuntime (dependencyKeys ps))),
           if filter isLegacyRuntime (dependencyKeys ps) = [] then None
           else getProp epj ''version'')"
    "\<forall>k. isLegacyRuntime k \<longrightarrow>
         entry ps' ''dependencies'' k = None \<and> entry ps' ''devDependencies'' k = None"
    "\<forall>k. \<not> isLegacyRuntime k \<and> \<not> isBuildTool k \<longrightarrow>
         entry ps' ''dependencies'' k = entry ps ''dependencies'' k"
    "\<forall>k. \<not> isLegacyRuntime k \<and> \<not> isBuildTool k \<and> k \<noteq> ''electron-prebuilt-compile'' \<longrightarrow>
         entry ps' ''devDependencies'' k = entry ps ''devDependencies'' k"
    "entry ps' ''devDependencies'' ''electron-prebuilt-compile'' =
       (if filter isLegacyRuntime (dependencyKeys ps) = []
        then entry ps ''devDependencies'' ''electron-prebuilt-compile''
        else getProp epj ''version'')"
    by blast
  then show ?thesis by (intro exI[of _ ps']) simp
qed

lemma demo_devDependencies:
  "orEmptyObject (map_of demoManifest ''devDependencies'')
     = JObj PlainObject [(''electron-packager'', JStr ''^8.5.0'')]"
  by (simp add: demoManifest_def orEmptyObject_def)

lemma demo_legacy: "filter isLegacyRuntime (dependencyKeys demoManifest) = [''electron-prebuilt'']"
  by (simp add: demoManifest_def orEmptyObject_def dependencyKeys_def isLegacyRuntime_def)

lemma demo_installed:
  "readPackageJSON demoExt (path_resolve (cwd electronWorld)
       [''/app'', ''node_modules'', ''electron-prebuilt'']) electronWorld
     = Ok (JObj PlainObject [(''version'', JStr ''1.4.15'')])"
proof -
  have "path_resolve ''/'' [path_resolve ''/'' [''/app'', ''node_modules'', ''electron-prebuilt''],
          ''package.json''] = ''/app/node_modules/electron-prebuilt/package.json''"
    by (simp add: path_resolve_def renderPath_def)
  then show ?thesis
    by (simp add: readPackageJSON_def electronWorld_def fs_readFile_def demoExt_def)
qed

lemma demo_migrate:
  "migrateDependencies demoExt demoAnswers ''/app'' True demoManifest electronWorld =
     Ok ([(''name'', JStr ''app''),
          (''dependencies'', JObj PlainObject [(''lodash'', JStr ''^4.17.4'')]),
          (''devDependencies'',
             JObj PlainObject [(''electron-packager'', JStr ''^8.5.0''),
                               (''electron-prebuilt-compile'', JStr ''1.4.15'')])],
         Some ''electron-prebuilt'', Some (JStr ''1.4.15''))"
proof -
  have sc: "scanKeys True demoAnswers 0 [''electron-prebuilt'', ''lodash'', ''electron-packager'']
          (JObj PlainObject [(''electron-prebuilt'', JStr ''^1.4.0''), (''lodash'', JStr ''^4.17.4'')],
           JObj PlainObject [(''electron-packager'', JStr ''^8.5.0'')], None)
        = (JObj PlainObject [(''lodash'', JStr ''^4.17.4'')],
           JObj PlainObject [(''electron-packager'', JStr ''^8.5.0'')], Some ''electron-prebuilt'')"
    by (simp add: isBuildTool_def buildToolPackages_def objectPrototypeNames_def
        demoAnswers_def AList.delete_eq)
  have cw: "cwd electronWorld = ''/''" by (simp add: electronWorld_def)
  have pin: "pinElectron demoExt ''/app'' (Some ''electron-prebuilt'')
               (JObj PlainObject [(''electron-packager'', JStr ''^8.5.0'')]) electronWorld
             = Ok (JObj PlainObject [(''electron-packager'', JStr ''^8.5.0''),
                                     (''electron-prebuilt-compile'', JStr ''1.4.15'')],
                   Some (JStr ''1.4.15''))"
    using demo_installed by (simp add: pinElectron_def)
  show ?thesis
    using sc pin
    by (simp add: migrateDependencies_def demoManifest_def orEmptyObject_def Let_def)
qed

theorem import_removes_legacy_runtime_witness:
  "orEmptyObject (map_of demoManifest ''devDependencies'')
     = JObj PlainObject [(''electron-packager'', JStr ''^8.5.0'')]
   \<and> filter isLegacyRuntime (dependencyKeys demoManifest) = [''electron-prebuilt'']
   \<and> readPackageJSON demoExt (path_resolve (cwd electronWorld)
         [''/app'', ''node_modules'', ''electron-prebuilt'']) electronWorld
       = Ok (JObj PlainObject [(''version'', JStr ''1.4.15'')])
   \<and> migrateDependencies demoExt demoAnswers ''/app'' True demoManifest electronWorld =
       Ok ([(''name'', JStr ''app''),
            (''dependencies'', JObj PlainObject [(''lodash'', JStr ''^4.17.4'')]),
            (''devDependencies'',
               JObj PlainObject [(''electron-packager'', JStr ''^8.5.0''),
                                 (''electron-prebuilt-compile'', JStr ''1.4.15'')])],
           Some ''electron-prebuilt'', Some (JStr ''1.4.15''))"
proof -
  have inst: "filter isLegacyRuntime (dependencyKeys demoManifest) \<noteq> [] \<Longrightarrow>
           readPackageJSON demoExt (path_resolve (cwd electronWorld)
               [''/app'', ''node_modules'', last (filter isLegacyRuntime (dependencyKeys demoManifest))])
             electronWorld
             = Ok (JObj PlainObject [(''version'', JStr ''1.4.15'')])
               \<and> JObj PlainObject [(''version'', JStr ''1.4.15'')] \<noteq> JNull"
    using demo_installed by (simp add: demo_legacy)
  from import_removes_legacy_runtime[OF demo_devDependencies inst, of demoAnswers True]
  obtain ps' where
    "migrateDependencies demoExt demoAnswers ''/app'' True demoManifest electronWorld =
       Ok (ps', Some ''electron-prebuilt'', Some (JStr ''1.4.15''))"
    by (auto simp: demo_legacy)
  then show ?thesis
    using demo_devDependencies demo_legacy demo_installed demo_migrate by simp
qed

text \<open>
  C9.  Under the same conditions the regular \<^verbatim>\<open>dependencies\<close> mapping gains no key:
  every key it has afterwards it had before, and its \<^verbatim>\<open>electron-prebuilt-compile\<close>
  entry is what it was; the pinned version is stored in \<^verbatim>\<open>devDependencies\<close>.
\<close>

theorem import_pins_in_devDependencies_only:
  fixes ps :: props
  assumes "orEmptyObject (map_of ps ''devDependencies'') = JObj c dds"
    and "filter isLegacyRuntime (dependencyKeys ps) \<noteq> []"
    and "readPackageJSON x (path_resolve (cwd w)
             [dir, ''node_modules'', last (filter isLegacyRuntime (dependencyKeys ps))]) w
           = Ok epj"
    and "epj \<noteq> JNull"
  shows "\<exists>ps' name. migrateDependencies x a dir interactive ps w
                       = Ok (ps', Some name, getProp epj ''version'')
          \<and> (\<forall>k. entry ps' ''dependencies'' k \<noteq> None \<longrightarrow> entry ps ''dependencies'' k \<noteq> None)
          \<and> entry ps' ''dependencies'' ''electron-prebuilt-compile''
              = entry ps ''dependencies'' ''electron-prebuilt-compile''
          \<and> entry ps' ''devDependencies'' ''electron-prebuilt-compile'' = getProp epj ''version''"
proof -
  have inst: "filter isLegacyRuntime (dependencyKeys ps) \<noteq> [] \<Longrightarrow>
           readPackageJSON x (path_resolve (cwd w)
               [dir, ''node_modules'', last (filter isLegacyRuntime (dependencyKeys ps))]) w
             = Ok epj \<and> epj \<noteq> JNull"
    using assms by simp
  have epc: "\<not> isLegacyRuntime ''electron-prebuilt-compile''"
    "\<not> isBuildTool ''electron-prebuilt-compile''"
    by (simp_all add: isLegacyRuntime_def isBuildTool_def buildToolPackages_def
        objectPrototypeNames_def)
  from migrateDependencies_result[OF assms(1) inst, of a interactive]
  obtain ps' where
    "migrateDependencies x a dir interactive ps w =
       Ok (ps', Some (last (filter isLegacyRuntime (dependencyKeys ps))), getProp epj ''version'')"
    "\<forall>k. \<not> isLegacyRuntime k \<and> \<not> isBuildTool k \<longrightarrow>
         entry ps' ''dependencies'' k = entry ps ''dependencies'' k"
    "\<forall>k. entry ps' ''dependencies'' k \<noteq> None \<longrightarrow> entry ps ''dependencies'' k \<noteq> None"
    "entry ps' ''devDependencies'' ''electron-prebuilt-compile'' = getProp epj ''version''"
    using assms(2) by auto
  then show ?thesis using epc by blast
qed

theorem import_pins_in_devDependencies_only_witness:
  "orEmptyObject (map_of demoManifest ''devDependencies'')
     = JObj PlainObject [(''electron-packager'', JStr ''^8.5.0'')]
   \<and> filter isLegacyRuntime (dependencyKeys demoManifest) \<noteq> []
   \<and> entry demoManifest ''dependencies'' ''electron-prebuilt'' = Some (JStr ''^1.4.0'')
   \<and> entry (fst (case migrateDependencies demoExt demoAnswers ''/app'' False demoManifest
                        electronWorld of Ok r \<Rightarrow> r))
        ''dependencies'' ''electron-prebuilt-compile'' = None
   \<and> entry (fst (case migrateDependencies demoExt demoAnswers ''/app'' False demoManifest
                        electronWorld of Ok r \<Rightarrow> r))
        ''devDependencies'' ''electron-prebuilt-compile'' = Some (JStr ''1.4.15'')"
proof -
  have l: "filter isLegacyRuntime (dependencyKeys demoManifest) \<noteq> []"
    by (simp add: demo_legacy)
  have r: "readPackageJSON demoExt (path_resolve (cwd electronWorld)
             [''/app'', ''node_modules'', last (filter isLegacyRuntime (dependencyKeys demoManifest))])
             electronWorld = Ok (JObj PlainObject [(''version'', JStr ''1.4.15'')])"
    using demo_installed by (simp add: demo_legacy)
  from import_pins_in_devDependencies_only[OF demo_devDependencies l r, of demoAnswers False]
  obtain ps' name where
    "migrateDependencies demoExt demoAnswers ''/app'' False demoManifest electronWorld
       = Ok (ps', Some name, Some (JStr ''1.4.15''))"
    "entry ps' ''dependencies'' ''electron-prebuilt-compile''
       = entry demoManifest ''dependencies'' ''electron-prebuilt-compile''"
    "entry ps' ''devDependencies'' ''electron-prebuilt-compile'' = Some (JStr ''1.4.15'')"
    by auto
  then show ?thesis
    using demo_devDependencies l by (simp add: entry_def demoManifest_def)
qed

section \<open>Import without a manifest\<close>

text \<open>
  C2.  When the directory or its \<^verbatim>\<open>package.json\<close> does not exist, import ends the
  process with status 1; the message on the console is all that has happened: the files
  are what they were.
\<close>

theorem import_without_manifest_exits:
  assumes "\<not> fs_exists w (path_resolve (cwd w) [dir])
           \<or> \<not> fs_exists w (path_resolve (cwd w) [dir, ''package.json''])"
  shows "importProject x a dir interactive w
           = (Exit 1, consoleLog (''We couldn't find a project in: '' @ dir) w)
         \<and> nodes (snd (importProject x a dir interactive w)) = nodes w"
  using assms by (auto simp add: importProject_def consoleLog_def)

theorem import_without_manifest_exits_witness:
  "fs_exists electronWorld (path_resolve (cwd electronWorld) [''/app''])
   \<and> \<not> fs_exists electronWorld (path_resolve (cwd electronWorld) [''/app'', ''package.json''])
   \<and> fst (importProject demoExt demoAnswers ''/app'' False electronWorld) = Exit 1
   \<and> nodes (snd (importProject demoExt demoAnswers ''/app'' False electronWorld))
       = nodes electronWorld"
proof -
  have d: "fs_exists electronWorld (path_resolve (cwd electronWorld) [''/app''])"
    by (simp add: electronWorld_def fs_exists_def path_resolve_def renderPath_def)
  have m: "\<not> fs_exists electronWorld
               (path_resolve (cwd electronWorld) [''/app'', ''package.json''])"
    by (simp add: electronWorld_def fs_exists_def path_resolve_def renderPath_def)
  then have "\<not> fs_exists electronWorld (path_resolve (cwd electronWorld) [''/app''])
             \<or> \<not> fs_exists electronWorld
                   (path_resolve (cwd electronWorld) [''/app'', ''package.json''])"
    by simp
  from import_without_manifest_exits[OF this, of demoExt demoAnswers False]
  show ?thesis using d m by (simp add: consoleLog_def)
qed

section \<open>Porting the babel configuration\<close>

lemma objectAssign_single: "objectAssign ps [(k, v)] = AList.update k v ps"
  by simp

text \<open>
  C10.  When \<^verbatim>\<open>.compilerc\<close> exists and holds a JSON object, what the step writes is
  the serialisation of that object with \<^verbatim>\<open>application/javascript\<close> set to the
  legacy configuration itself, whatever the key held before, and every other key as it
  was.
\<close>

theorem import_babel_keeps_other_keys:
  assumes "nodes w (path_resolve (cwd w) [dir, ''.compilerc'']) = Some (File text)"
    and "jsonParse x text = Some (JObj PlainObject ps)"
  shows "portBabelConfig x dir babelConfig w =
           (Ok (), w\<lparr>nodes := (nodes w)(path_resolve (cwd w) [dir, ''.compilerc'']
              \<mapsto> File (jsonStringify x (JObj PlainObject
                   (objectAssign ps [(''application/javascript'', babelConfig)]))))\<rparr>)
         \<and> (\<forall>k. k \<noteq> ''application/javascript'' \<longrightarrow>
               map_of (objectAssign ps [(''application/javascript'', babelConfig)]) k
                 = map_of ps k)
         \<and> map_of (objectAssign ps [(''application/javascript'', babelConfig)])
               ''application/javascript'' = Some babelConfig"
  using assms
  by (simp add: portBabelConfig_def fs_exists_def readJSONFile_def fs_readFile_def
      andThen_def assignBabel_def fs_writeFile_def AList.update_conv')

theorem import_babel_keeps_other_keys_witness:
  "nodes electronWorld (path_resolve (cwd electronWorld) [''/app'', ''.compilerc''])
     = Some (File ''{compilerc}'')
   \<and> jsonParse demoExt ''{compilerc}''
       = Some (JObj PlainObject
                 [(''env'', JStr ''production''),
                  (''application/javascript'', JObj PlainObject [(''presets'', JStr ''old'')])])
   \<and> map_of (objectAssign
        [(''env'', JStr ''production''),
         (''application/javascript'', JObj PlainObject [(''presets'', JStr ''old'')])]
        [(''application/javascript'', JObj PlainObject [(''plugins'', JStr ''new'')])]) ''env''
       = Some (JStr ''production'')
   \<and> map_of (objectAssign
        [(''env'', JStr ''production''),
         (''application/javascript'', JObj PlainObject [(''presets'', JStr ''old'')])]
        [(''application/javascript'', JObj PlainObject [(''plugins'', JStr ''new'')])])
        ''application/javascript''
       = Some (JObj PlainObject [(''plugins'', JStr ''new'')])
   \<and> fst (portBabelConfig demoExt ''/app'' (JObj PlainObject [(''plugins'', JStr ''new'')])
             electronWorld) = Ok ()"
proof -
  have p: "path_resolve (cwd electronWorld) [''/app'', ''.compilerc''] = ''/app/.compilerc''"
    by (simp add: electronWorld_def path_resolve_def renderPath_def)
  have f: "nodes electronWorld (path_resolve (cwd electronWorld) [''/app'', ''.compilerc''])
             = Some (File ''{compilerc}'')"
    unfolding p by (simp add: electronWorld_def)
  have j: "jsonParse demoExt ''{compilerc}''
       = Some (JObj PlainObject
                 [(''env'', JStr ''production''),
                  (''application/javascript'', JObj PlainObject [(''presets'', JStr ''old'')])])"
    by (simp add: demoExt_def)
  from import_babel_keeps_other_keys[OF f j, of "JObj PlainObject [(''plugins'', JStr ''new'')]"]
  show ?thesis using f j by simp
qed

section \<open>Properties of hook resolution\<close>

lemma requireSearch_single:
  "requireSearch mods dir [name] =
     (case mods dir name of Some v \<Rightarrow> Ok v | None \<Rightarrow> Throw (Unresolved [name]))"
  by (simp add: requireSearch_def split: option.splits)

lemma mapHooks_all_resolved:
  assumes "\<forall>s. JStr s \<in> set hooks \<longrightarrow> mods dir s \<noteq> None"
  shows "mapHooks (\<lambda>hook. requireSearch mods dir [hook]) hooks
           = Ok (map (hookValue (mods dir)) hooks)"
  using assms
proof (induction hooks)
  case Nil
  then show ?case by simp
next
  case (Cons h hs)
  then have ih: "mapHooks (\<lambda>hook. requireSearch mods dir [hook]) hs
                   = Ok (map (hookValue (mods dir)) hs)"
    by simp
  have "(case h of JStr s \<Rightarrow> requireSearch mods dir [s] | _ \<Rightarrow> Ok h)
          = Ok (hookValue (mods dir) h)"
    using Cons.prems by (cases h) (auto simp: requireSearch_single hookValue_def)
  then show ?case using ih by simp
qed

lemma mapHooks_first_failure:
  assumes "\<forall>s. JStr s \<in> set pre \<longrightarrow> mods dir s \<noteq> None"
    and "mods dir name = None"
  shows "mapHooks (\<lambda>hook. requireSearch mods dir [hook]) (pre @ JStr name # post)
           = Throw (Unresolved [name])"
  using assms
proof (induction pre)
  case Nil
  then show ?case by (simp add: requireSearch_single)
next
  case (Cons h hs)
  then have ih: "mapHooks (\<lambda>hook. requireSearch mods dir [hook]) (hs @ JStr name # post)
                   = Throw (Unresolved [name])"
    by simp
  have "(case h of JStr s \<Rightarrow> requireSearch mods dir [s] | _ \<Rightarrow> Ok h)
          = Ok (hookValue (mods dir) h)"
    using Cons.prems by (cases h) (auto simp: requireSearch_single hookValue_def)
  then show ?case using ih by simp
qed

text \<open>
  C8.  A hook list whose first unresolvable name is \<open>name\<close> makes the resolution fail
  with the error that carries this name; when every name resolves, the result has, for
  every entry of the input and at the same position, what the name resolved to or the
  very value that was not a string.  A missing list resolves to the empty one.
\<close>

theorem resolveHooks_surfaces_unresolved:
  "((\<forall>s. JStr s \<in> set pre \<longrightarrow> mods dir s \<noteq> None) \<and> mods dir name = None
      \<longrightarrow> resolveHooks mods (Some (pre @ JStr name # post)) dir = Throw (Unresolved [name]))
   \<and> ((\<forall>s. JStr s \<in> set hooks \<longrightarrow> mods dir s \<noteq> None)
      \<longrightarrow> resolveHooks mods (Some hooks) dir = Ok (map (hookValue (mods dir)) hooks))
   \<and> (\<forall>f. hookValue (mods dir) (JFun f) = JFun f)
   \<and> resolveHooks mods None dir = Ok []"
  by (simp add: resolveHooks_def mapHooks_all_resolved mapHooks_first_failure hookValue_def)

theorem resolveHooks_surfaces_unresolved_witness:
  "demoModules ''/app'' ''hooks/sign'' = Some (JFun (Given ''hooks/sign''))
   \<and> demoModules ''/app'' ''hooks/missing'' = None
   \<and> resolveHooks demoModules
        (Some ([JFun (Given ''notify''), JStr ''hooks/sign''] @ JStr ''hooks/missing''
                 # [JFun (Given ''upload'')])) ''/app''
       = Throw (Unresolved [''hooks/missing''])
   \<and> resolveHooks demoModules (Some [JFun (Given ''notify''), JStr ''hooks/sign'']) ''/app''
       = Ok [JFun (Given ''notify''), JFun (Given ''hooks/sign'')]"
proof -
  have pre: "\<forall>s. JStr s \<in> set [JFun (Given ''notify''), JStr ''hooks/sign'']
               \<longrightarrow> demoModules ''/app'' s \<noteq> None"
    by (simp add: demoModules_def)
  have miss: "demoModules ''/app'' ''hooks/missing'' = None"
    by (simp add: demoModules_def)
  note t = resolveHooks_surfaces_unresolved[of "[JFun (Given ''notify''), JStr ''hooks/sign'']"
      demoModules "''/app''" "''hooks/missing''" "[JFun (Given ''upload'')]"
      "[JFun (Given ''notify''), JStr ''hooks/sign'']"]
  from t pre miss have 1: "resolveHooks demoModules
        (Some ([JFun (Given ''notify''), JStr ''hooks/sign''] @ JStr ''hooks/missing''
                 # [JFun (Given ''upload'')])) ''/app''
       = Throw (Unresolved [''hooks/missing''])"
    by blast
  from t pre have 2: "resolveHooks demoModules (Some [JFun (Given ''notify''), JStr ''hooks/sign''])
        ''/app'' = Ok (map (hookValue (demoModules ''/app''))
                         [JFun (Given ''notify''), JStr ''hooks/sign''])"
    by blast
  show ?thesis using 1 2 miss by (simp add: demoModules_def hookValue_def)
qed

section \<open>Properties of the packaging options and of the entry-point check\<close>

lemma map_of_objectAssign:
  "map_of (objectAssign target source) k =
     (case map_of (rev source) k of Some v \<Rightarrow> Some v | None \<Rightarrow> map_of target k)"
proof (induction source arbitrary: target)
  case Nil
  then show ?case by simp
next
  case (Cons p source)
  obtain k' x where p: "p = (k', x)" by (cases p)
  show ?case
    by (simp add: p Cons.IH AList.update_conv' map_add_def split: option.splits)
qed

lemma assemblePackageOpts_arch:
  assumes "assemblePackageOpts mods pConfig packageJSON dir arch platform outDir = Ok opts"
  shows "map_of (options opts) ''arch'' = Some (JStr arch)"
  using assms
  by (auto simp: assemblePackageOpts_def AList.update_conv' AList.delete_conv'
      map_of_objectAssign split: outcome.splits option.splits jsval.splits)

text \<open>
  C7.  The label shown for the architecture \<^verbatim>\<open>all\<close> names \<^verbatim>\<open>ia32\<close>, and any other
  architecture is shown as it is.  When the hook lists resolve and the manifest has
  \<^verbatim>\<open>devDependencies\<close>, the options are assembled, and their \<^verbatim>\<open>arch\<close> is the input
  architecture, whatever it is and whatever the configuration holds under \<^verbatim>\<open>arch\<close>.
\<close>

theorem packageOpts_arch_is_input:
  assumes "resolveHooks mods (afterCopy pConfig) dir = Ok copyHooks"
    and "resolveHooks mods (afterExtract pConfig) dir = Ok extractHooks"
    and "resolveHooks mods (afterPrune pConfig) dir = Ok pruneHooks"
    and "getProp packageJSON ''devDependencies'' = Some devDependencies"
    and "devDependencies \<noteq> JNull"
  shows "(\<exists>opts. assemblePackageOpts mods pConfig packageJSON dir arch platform outDir = Ok opts
            \<and> map_of (options opts) ''arch'' = Some (JStr arch))
         \<and> prepareLabel ''all'' = ''Preparing to Package Application for arch: ia32''
         \<and> (arch \<noteq> ''all'' \<longrightarrow>
               prepareLabel arch = ''Preparing to Package Application for arch: '' @ arch)"
proof -
  have "\<exists>opts. assemblePackageOpts mods pConfig packageJSON dir arch platform outDir = Ok opts"
    using assms by (cases devDependencies) (simp_all add: assemblePackageOpts_def)
  then show ?thesis
    using assemblePackageOpts_arch by (auto simp: prepareLabel_def)
qed

theorem packageOpts_arch_is_input_witness:
  "resolveHooks demoModules (afterCopy demoPackagerConfig) ''/app''
     = Ok [JFun (Given ''notify''), JFun (Given ''hooks/sign'')]
   \<and> getProp rootMainManifest ''devDependencies''
       = Some (JObj PlainObject [(''electron-prebuilt-compile'', JStr ''1.4.15'')])
   \<and> map_of (others demoPackagerConfig) ''arch'' = Some (JStr ''x64'')
   \<and> map_of (options (case assemblePackageOpts demoModules demoPackagerConfig rootMainManifest
                         ''/app'' ''all'' ''linux'' ''/app/out'' of Ok opts \<Rightarrow> opts)) ''arch''
       = Some (JStr ''all'')
   \<and> prepareLabel ''all'' = ''Preparing to Package Application for arch: ia32''"
proof -
  have c: "resolveHooks demoModules (afterCopy demoPackagerConfig) ''/app''
             = Ok [JFun (Given ''notify''), JFun (Given ''hooks/sign'')]"
    by (simp add: resolveHooks_def demoPackagerConfig_def requireSearch_def demoModules_def)
  have e: "resolveHooks demoModules (afterExtract demoPackagerConfig) ''/app'' = Ok []"
    by (simp add: resolveHooks_def demoPackagerConfig_def)
  have p: "resolveHooks demoModules (afterPrune demoPackagerConfig) ''/app'' = Ok []"
    by (simp add: resolveHooks_def demoPackagerConfig_def)
  have d: "getProp rootMainManifest ''devDependencies''
             = Some (JObj PlainObject [(''electron-prebuilt-compile'', JStr ''1.4.15'')])"
    by (simp add: rootMainManifest_def)
  from packageOpts_arch_is_input[OF c e p d, of "''all''" "''linux''" "''/app/out''"]
  obtain opts where
    "assemblePackageOpts demoModules demoPackagerConfig rootMainManifest
       ''/app'' ''all'' ''linux'' ''/app/out'' = Ok opts"
    "map_of (options opts) ''arch'' = Some (JStr ''all'')"
    "prepareLabel ''all'' = ''Preparing to Package Application for arch: ia32''"
    by auto
  then show ?thesis using c d by (simp add: demoPackagerConfig_def)
qed

text \<open>
  The entry-point check when the project root that \<^verbatim>\<open>resolveDir\<close> yields is a
  normalised absolute path: an entry point that resolves to a file directly in it ends
  packaging with the error that says so.  Up to then the run has shown the spinner
  label and the entry point on the console and nothing else: no file has changed, and
  the configuration, the hooks and the engine have not been called.
\<close>

lemma packageProject_normalised_root_rejected:
  assumes "\<forall>s \<in> set segs. properSeg s"
    and "properSeg fname"
    and "resolveDir px dir (ora interactive (prepareLabel arch) w) = Some (renderPath segs)"
    and "readPackageJSON x (renderPath segs) (ora interactive (prepareLabel arch) w)
           = Ok packageJSON"
    and "getProp packageJSON ''main'' = Some (JStr main)"
    and "requireResolve px (ora interactive (prepareLabel arch) w)
           (path_resolve (cwd w) [renderPath segs, main]) = Ok (renderPath (segs @ [fname]))"
  shows "packageProject x px dir interactive arch platform outDirOpt w =
           (Throw (Thrown ''The entry point to your application (\"packageJSON.main\") must be in a subfolder not in the top level directory''),
            consoleLog (''Entry point: '' @ main) (ora interactive (prepareLabel arch) w))
         \<and> nodes (snd (packageProject x px dir interactive arch platform outDirOpt w)) = nodes w"
proof -
  have c: "cwd (ora interactive (prepareLabel arch) w) = cwd w"
    by (simp add: ora_def consoleLog_def)
  have n: "packageJSON \<noteq> JNull" using assms(5) by auto
  have d: "path_dirname (renderPath (segs @ [fname])) = renderPath segs"
    using assms(1,2) by (rule path_dirname_render)
  have "packageProject x px dir interactive arch platform outDirOpt w =
           (Throw (Thrown ''The entry point to your application (\"packageJSON.main\") must be in a subfolder not in the top level directory''),
            consoleLog (''Entry point: '' @ main) (ora interactive (prepareLabel arch) w))"
    using assms(3-6) n d
    by (cases packageJSON) (simp_all add: packageProject_def Let_def andThen_def c)
  then show ?thesis by (simp add: consoleLog_def ora_def)
qed

lemma packageProject_app_rejected:
  "renderPath [''app''] = ''/app''
   \<and> renderPath ([''app''] @ [''index.js'']) = ''/app/index.js''
   \<and> resolveDir demoPkgExt ''/app'' (ora False (prepareLabel ''x64'') rootMainWorld) = Some ''/app''
   \<and> readPackageJSON demoExt ''/app'' (ora False (prepareLabel ''x64'') rootMainWorld)
       = Ok rootMainManifest
   \<and> getProp rootMainManifest ''main'' = Some (JStr ''index.js'')
   \<and> requireResolve demoPkgExt (ora False (prepareLabel ''x64'') rootMainWorld)
         (path_resolve (cwd rootMainWorld) [''/app'', ''index.js'']) = Ok ''/app/index.js''
   \<and> fst (packageProject demoExt demoPkgExt ''/app'' False ''x64'' ''linux'' None rootMainWorld)
       = Throw (Thrown ''The entry point to your application (\"packageJSON.main\") must be in a subfolder not in the top level directory'')
   \<and> nodes (snd (packageProject demoExt demoPkgExt ''/app'' False ''x64'' ''linux'' None
                    rootMainWorld)) = nodes rootMainWorld"
proof -
  have r1: "renderPath [''app''] = ''/app''" by (simp add: renderPath_def)
  have r2: "renderPath ([''app''] @ [''index.js'']) = ''/app/index.js''"
    by (simp add: renderPath_def)
  have s1: "\<forall>s \<in> set [''app'']. properSeg s" by (simp add: properSeg_def)
  have s2: "properSeg ''index.js''" by (simp add: properSeg_def)
  have o: "ora False (prepareLabel ''x64'') rootMainWorld = rootMainWorld"
    by (simp add: ora_def)
  have p1: "path_resolve (cwd rootMainWorld) [''/app'', ''package.json''] = ''/app/package.json''"
    by (simp add: rootMainWorld_def path_resolve_def renderPath_def)
  have p2: "path_resolve (cwd rootMainWorld) [''/app'', ''index.js''] = ''/app/index.js''"
    by (simp add: rootMainWorld_def path_resolve_def renderPath_def)
  have a1: "resolveDir demoPkgExt ''/app'' (ora False (prepareLabel ''x64'') rootMainWorld)
              = Some ''/app''"
    by (simp add: demoPkgExt_def)
  have a2: "readPackageJSON demoExt ''/app'' (ora False (prepareLabel ''x64'') rootMainWorld)
              = Ok rootMainManifest"
    unfolding o readPackageJSON_def p1
    by (simp add: rootMainWorld_def fs_readFile_def demoExt_def rootMainManifest_def)
  have a3: "getProp rootMainManifest ''main'' = Some (JStr ''index.js'')"
    by (simp add: rootMainManifest_def)
  have a4: "requireResolve demoPkgExt (ora False (prepareLabel ''x64'') rootMainWorld)
              (path_resolve (cwd rootMainWorld) [''/app'', ''index.js'']) = Ok ''/app/index.js''"
    unfolding o p2 by (simp add: demoPkgExt_def rootMainWorld_def)
  note t = packageProject_normalised_root_rejected[where segs = "[''app'']" and fname = "''index.js''"
      and px = demoPkgExt and dir = "''/app''" and interactive = False and arch = "''x64''"
      and w = rootMainWorld and x = demoExt and packageJSON = rootMainManifest
      and main = "''index.js''" and platform = "''linux''" and outDirOpt = None,
      unfolded r1 r2, OF s1 s2 a1 a2 a3 a4]
  from t have "fst (packageProject demoExt demoPkgExt ''/app'' False ''x64'' ''linux'' None rootMainWorld)
       = Throw (Thrown ''The entry point to your application (\"packageJSON.main\") must be in a subfolder not in the top level directory'')"
    "nodes (snd (packageProject demoExt demoPkgExt ''/app'' False ''x64'' ''linux'' None
                    rootMainWorld)) = nodes rootMainWorld"
    by (simp_all add: consoleLog_def ora_def)
  then show ?thesis using r1 r2 a1 a2 a3 a4 by simp
qed

text \<open>
  When the comparison of line 283 fails, the run goes on: the configuration is loaded,
  the options are assembled and checked, and the hooks and the engine are run.
\<close>

lemma packageProject_proceeds:
  assumes "resolveDir px dir (ora interactive (prepareLabel arch) w) = Some dir'"
    and "readPackageJSON x dir' (ora interactive (prepareLabel arch) w) = Ok packageJSON"
    and "getProp packageJSON ''main'' = Some (JStr main)"
    and "requireResolve px (ora interactive (prepareLabel arch) w)
           (path_resolve (cwd w) [dir', main]) = Ok resolved"
    and "path_dirname resolved \<noteq> dir'"
    and "getForgeConfig px dir' (ora interactive (prepareLabel arch) w) = Ok forgeConfig"
    and "assemblePackageOpts (modules px) (electronPackagerConfig forgeConfig) packageJSON dir'
           arch platform
           (case outDirOpt of Some out \<Rightarrow> out | None \<Rightarrow> path_resolve (cwd w) [dir, ''out''])
           = Ok packageOpts"
    and "checkAsar packageOpts = Ok ()"
  shows "packageProject x px dir interactive arch platform outDirOpt w =
           runPackager px forgeConfig packageOpts (ora interactive (prepareLabel arch) w)"
proof -
  have c: "cwd (ora interactive (prepareLabel arch) w) = cwd w"
    by (simp add: ora_def consoleLog_def)
  have n: "packageJSON \<noteq> JNull" using assms(3) by auto
  show ?thesis
    using assms n
    by (cases packageJSON) (simp_all add: packageProject_def Let_def andThen_def c)
qed

text \<open>
  C4 does not hold of the code.  The check of line 283 compares
  \<^verbatim>\<open>path.dirname\<close> of the resolved entry point with the directory string as
  \<^verbatim>\<open>resolveDir\<close> hands it back.  For the same project, whose \<^verbatim>\<open>main\<close> is
  \<^verbatim>\<open>index.js\<close> directly in the root \<^verbatim>\<open>/app\<close>, given as \<^verbatim>\<open>/app/\<close>, or as \<^verbatim>\<open>.\<close>
  from inside it, the two strings differ (\<^verbatim>\<open>/app\<close> against \<^verbatim>\<open>/app/\<close> or \<^verbatim>\<open>.\<close>):
  no error is thrown, and the engine is called.
\<close>

theorem package_accepts_root_entry_point:
  "requireResolve demoPkgExt rootMainWorld
       (path_resolve (cwd rootMainWorld) [''/app/'', ''index.js'']) = Ok ''/app/index.js''
   \<and> path_dirname ''/app/index.js'' = ''/app''
   \<and> packageProject demoExt demoPkgExt ''/app/'' False ''x64'' ''linux'' None rootMainWorld
       = (Ok (), consoleLog ''packager called'' rootMainWorld)
   \<and> requireResolve demoPkgExt rootMainCwdWorld
       (path_resolve (cwd rootMainCwdWorld) [''.'', ''index.js'']) = Ok ''/app/index.js''
   \<and> packageProject demoExt demoPkgExt ''.'' False ''x64'' ''linux'' None rootMainCwdWorld
       = (Ok (), consoleLog ''packager called'' rootMainCwdWorld)"
proof -
  have d: "path_dirname ''/app/index.js'' = ''/app''"
    by (simp add: path_dirname_def)
  have h: "resolveHooks demoModules (afterCopy demoPackagerConfig) d
             = Ok [JFun (Given ''notify''), JFun (Given ''hooks/sign'')]"
    "resolveHooks demoModules (afterExtract demoPackagerConfig) d = Ok []"
    "resolveHooks demoModules (afterPrune demoPackagerConfig) d = Ok []" for d
    by (simp_all add: resolveHooks_def demoPackagerConfig_def requireSearch_def demoModules_def)
  have oth: "others demoPackagerConfig = [(''arch'', JStr ''x64''), (''icon'', JStr ''app.icns'')]"
    by (simp add: demoPackagerConfig_def)
  have opts: "\<exists>opts. assemblePackageOpts demoModules demoPackagerConfig rootMainManifest d a p out
                 = Ok opts \<and> map_of (options opts) ''asar'' = Some (JBool False)" for d a p out
    by (simp add: assemblePackageOpts_def h oth rootMainManifest_def)
  have asar: "checkAsar opts = Ok ()" if "map_of (options opts) ''asar'' = Some (JBool False)"
    for opts
    using that by (simp add: checkAsar_def)
  have run: "runPackager demoPkgExt fc opts w = (Ok (), consoleLog ''packager called'' w)"
    for fc opts w
    by (simp add: runPackager_def andThen_def demoPkgExt_def)
  have p1: "path_resolve ''/'' [''/app/'', ''package.json''] = ''/app/package.json''"
    "path_resolve ''/'' [''/app/'', ''index.js''] = ''/app/index.js''"
    "path_resolve ''/app'' [''.'', ''package.json''] = ''/app/package.json''"
    "path_resolve ''/app'' [''.'', ''index.js''] = ''/app/index.js''"
    by (simp_all add: path_resolve_def renderPath_def)
  have c: "cwd rootMainWorld = ''/''" "cwd rootMainCwdWorld = ''/app''"
    by (simp_all add: rootMainWorld_def rootMainCwdWorld_def)
  have n: "nodes rootMainCwdWorld = nodes rootMainWorld"
    by (simp add: rootMainCwdWorld_def)
  have f: "nodes rootMainWorld ''/app/package.json'' = Some (File ''{root-main}'')"
    "nodes rootMainWorld ''/app/index.js'' = Some (File ''module.exports = 1'')"
    by (simp_all add: rootMainWorld_def)
  have rd: "readPackageJSON demoExt ''/app/'' rootMainWorld = Ok rootMainManifest"
    "readPackageJSON demoExt ''.'' rootMainCwdWorld = Ok rootMainManifest"
    by (simp_all add: readPackageJSON_def c p1 n f fs_readFile_def demoExt_def
        rootMainManifest_def)
  have rr: "requireResolve demoPkgExt rootMainWorld
              (path_resolve (cwd rootMainWorld) [''/app/'', ''index.js'']) = Ok ''/app/index.js''"
    "requireResolve demoPkgExt rootMainCwdWorld
       (path_resolve (cwd rootMainCwdWorld) [''.'', ''index.js'']) = Ok ''/app/index.js''"
    by (simp_all add: c p1 n f demoPkgExt_def)
  have m: "getProp rootMainManifest ''main'' = Some (JStr ''index.js'')"
    "rootMainManifest \<noteq> JNull"
    by (simp_all add: rootMainManifest_def)
  have g: "getForgeConfig demoPkgExt d w = Ok \<lparr>electronPackagerConfig = demoPackagerConfig\<rparr>"
    "resolveDir demoPkgExt d w = Some d" "modules demoPkgExt = demoModules" for d w
    by (simp_all add: demoPkgExt_def)
  obtain o1 where o1: "assemblePackageOpts demoModules demoPackagerConfig rootMainManifest
      ''/app/'' ''x64'' ''linux'' (path_resolve ''/'' [''/app/'', ''out'']) = Ok o1"
    and a1: "map_of (options o1) ''asar'' = Some (JBool False)"
    using opts by blast
  obtain o2 where o2: "assemblePackageOpts demoModules demoPackagerConfig rootMainManifest
      ''.'' ''x64'' ''linux'' (path_resolve ''/app'' [''.'', ''out'']) = Ok o2"
    and a2: "map_of (options o2) ''asar'' = Some (JBool False)"
    using opts by blast
  have o: "ora False l w = w" for l w
    by (simp add: ora_def)
  have ne: "path_dirname ''/app/index.js'' \<noteq> ''/app/''" "path_dirname ''/app/index.js'' \<noteq> ''.''"
    by (simp_all add: d)
  have r1: "packageProject demoExt demoPkgExt ''/app/'' False ''x64'' ''linux'' None rootMainWorld
              = (Ok (), consoleLog ''packager called'' rootMainWorld)"
    using packageProject_proceeds[where px = demoPkgExt and x = demoExt and dir = "''/app/''"
        and dir' = "''/app/''" and interactive = False and arch = "''x64''" and w = rootMainWorld
        and packageJSON = rootMainManifest and main = "''index.js''"
        and resolved = "''/app/index.js''"
        and forgeConfig = "\<lparr>electronPackagerConfig = demoPackagerConfig\<rparr>"
        and platform = "''linux''" and outDirOpt = None and packageOpts = o1]
      g rd(1) m(1) rr(1) ne(1) o1 asar[OF a1]
    by (simp add: o c run)
  have r2: "packageProject demoExt demoPkgExt ''.'' False ''x64'' ''linux'' None rootMainCwdWorld
              = (Ok (), consoleLog ''packager called'' rootMainCwdWorld)"
    using packageProject_proceeds[where px = demoPkgExt and x = demoExt and dir = "''.''"
        and dir' = "''.''" and interactive = False and arch = "''x64''" and w = rootMainCwdWorld
        and packageJSON = rootMainManifest and main = "''index.js''"
        and resolved = "''/app/index.js''"
        and forgeConfig = "\<lparr>electronPackagerConfig = demoPackagerConfig\<rparr>"
        and platform = "''linux''" and outDirOpt = None and packageOpts = o2]
      g rd(2) m(1) rr(2) ne(2) o2 asar[OF a2]
    by (simp add: o c run)
  show ?thesis using rr d r1 r2 by simp
qed

section \<open>Properties of the archive maker\<close>

lemma resolve_three:
  assumes "name \<noteq> []" "hd name \<noteq> CHR ''/''"
  shows "path_resolve c [d, ''../make'', name] = path_resolve c [d, ''../make/'' @ name]"
  using assms by (simp add: path_resolve_def)

lemma long_proper:
  assumes "CHR ''/'' \<notin> set s" "length s \<ge> 3"
  shows "properSeg s"
proof -
  have "s \<noteq> ''.''" "s \<noteq> ''..''" "s \<noteq> []"
    using assms(2) by auto
  then show ?thesis using assms(1) by (simp add: properSeg_def)
qed

lemma zipPath_render:
  assumes "segs \<noteq> []" "\<forall>s \<in> set segs. properSeg s" "CHR ''/'' \<notin> set version"
  shows "path_resolve c [renderPath segs, ''../make'',
                         path_basename (renderPath segs) @ ''-'' @ version @ ''.zip'']
           = renderPath (butlast segs @ [''make'', last segs @ ''-'' @ version @ ''.zip''])"
proof -
  let ?name = "last segs @ ''-'' @ version @ ''.zip''"
  have l: "properSeg (last segs)" using assms by simp
  then have ns: "CHR ''/'' \<notin> set ?name" using assms(3) by (auto simp: properSeg_def)
  have pn: "properSeg ?name" using ns by (intro long_proper) simp_all
  have ne: "?name \<noteq> []" "hd ?name \<noteq> CHR ''/''"
    using l by (cases "last segs"; auto simp: properSeg_def)+
  have sp: "splitPath (''../make/'' @ ?name) = [''..'', ''make'', ?name]"
    using splitPath_append_slash[of "''..''" "''make/'' @ ?name"]
      splitPath_append_slash[of "''make''" ?name] splitPath_noslash[OF ns]
    by simp
  have "path_resolve c [renderPath segs, ''../make'', ?name]
          = path_resolve c [renderPath segs, ''../make/'' @ ?name]"
    using ne by (rule resolve_three)
  also have "\<dots> = renderPath (normalizeSegs segs (splitPath (''../make/'' @ ?name)))"
    by (rule resolve_under_absolute[OF assms(2)]) simp_all
  also have "\<dots> = renderPath (butlast segs @ [''make'', ?name])"
    unfolding sp using pn by (simp add: properSeg_def)
  finally show ?thesis
    by (simp add: path_basename_render[OF assms(1,2)])
qed

lemma zipDir_render:
  assumes "\<forall>s \<in> set segs. properSeg s" "CHR ''/'' \<notin> set appName"
  shows "path_resolve c [renderPath segs, appName @ ''.app'']
           = renderPath (segs @ [appName @ ''.app''])"
proof -
  let ?t = "appName @ ''.app''"
  have ns: "CHR ''/'' \<notin> set ?t" using assms(2) by simp
  have pt: "properSeg ?t" using ns by (intro long_proper) simp_all
  have ne: "?t \<noteq> []" "hd ?t \<noteq> CHR ''/''"
    using assms(2) by (cases appName; auto)+
  have "path_resolve c [renderPath segs, ?t]
          = renderPath (normalizeSegs segs (splitPath ?t))"
    using ne by (rule resolve_under_absolute[OF assms(1)])
  also have "\<dots> = renderPath (segs @ [?t])"
    unfolding splitPath_noslash[OF ns] using pt by (simp add: properSeg_def)
  finally show ?thesis .
qed

text \<open>
  C5.  For a staged build directory given as a normalised absolute path, a version and
  an application name without separator, and a \<^verbatim>\<open>make\<close> directory that is not
  a regular file: the archiver is called in a file system that has the \<^verbatim>\<open>make\<close>
  directory beside the staged directory, on the bundle \<^verbatim>\<open><appName>.app\<close> inside the
  staged directory for \<^verbatim>\<open>darwin\<close> and on the staged directory otherwise, to write
  \<^verbatim>\<open><parent>/make/<basename>-<version>.zip\<close>; when it succeeds, the maker returns
  that one path.
\<close>

theorem zip_maker_output_path:
  assumes "segs \<noteq> []"
    and "\<forall>s \<in> set segs. properSeg s"
    and "CHR ''/'' \<notin> set version"
    and "CHR ''/'' \<notin> set appName"
    and "\<forall>t. nodes w (renderPath (butlast segs @ [''make''])) \<noteq> Some (File t)"
  shows "zipMaker crossZip (renderPath segs) appName targetPlatform version w =
           andThen
             (crossZip
                (if targetPlatform = ''darwin'' then renderPath (segs @ [appName @ ''.app''])
                 else renderPath segs)
                (renderPath (butlast segs @ [''make'', last segs @ ''-'' @ version @ ''.zip'']))
                (w\<lparr>nodes := (nodes w)(renderPath (butlast segs @ [''make'']) \<mapsto> Dir)\<rparr>))
             (\<lambda>_ w2. (Ok [renderPath (butlast segs
                                        @ [''make'', last segs @ ''-'' @ version @ ''.zip''])],
                       w2))"
proof -
  let ?name = "last segs @ ''-'' @ version @ ''.zip''"
  let ?zipPath = "renderPath (butlast segs @ [''make'', ?name])"
  let ?make = "renderPath (butlast segs @ [''make''])"
  have l: "properSeg (last segs)" using assms by simp
  then have ns: "CHR ''/'' \<notin> set ?name" using assms(3) by (auto simp: properSeg_def)
  have pn: "properSeg ?name" using ns by (intro long_proper) simp_all
  have pb: "\<forall>s \<in> set (butlast segs @ [''make'']). properSeg s"
    using assms(2) by (auto simp: properSeg_def dest: in_set_butlastD)
  have dn: "path_dirname ?zipPath = ?make"
    using path_dirname_render[OF pb pn] by simp
  have ens: "ensureFile ?zipPath w = (Ok (), w\<lparr>nodes := (nodes w)(?make \<mapsto> Dir)\<rparr>)"
  proof (cases "nodes w ?make")
    case None
    then show ?thesis unfolding ensureFile_def dn by simp
  next
    case (Some n)
    with assms(5) have n: "nodes w ?make = Some Dir" by (cases n) auto
    then have "(nodes w)(?make \<mapsto> Dir) = nodes w" by (simp add: fun_upd_idem)
    then show ?thesis using n unfolding ensureFile_def dn by simp
  qed
  show ?thesis
    unfolding zipMaker_def Let_def zipPath_render[OF assms(1,2,3)]
      zipDir_render[OF assms(2,4)] ens
    by (simp add: andThen_def)
qed

theorem zip_maker_output_path_witness:
  "renderPath [''tmp'', ''build'', ''MyApp''] = ''/tmp/build/MyApp''
   \<and> nodes buildWorld (renderPath (butlast [''tmp'', ''build'', ''MyApp''] @ [''make''])) = None
   \<and> fst (zipMaker demoZip ''/tmp/build/MyApp'' ''MyApp'' ''darwin'' ''1.2.3'' buildWorld)
       = Ok [''/tmp/build/make/MyApp-1.2.3.zip'']
   \<and> nodes (snd (zipMaker demoZip ''/tmp/build/MyApp'' ''MyApp'' ''darwin'' ''1.2.3'' buildWorld))
        ''/tmp/build/make'' = Some Dir
   \<and> nodes (snd (zipMaker demoZip ''/tmp/build/MyApp'' ''MyApp'' ''darwin'' ''1.2.3'' buildWorld))
        ''/tmp/build/make/MyApp-1.2.3.zip''
       = Some (File ''archive of /tmp/build/MyApp/MyApp.app'')"
proof -
  have r: "renderPath [''tmp'', ''build'', ''MyApp''] = ''/tmp/build/MyApp''"
    by (simp add: renderPath_def)
  have a1: "[''tmp'', ''build'', ''MyApp''] \<noteq> []" by simp
  have a2: "\<forall>s \<in> set [''tmp'', ''build'', ''MyApp'']. properSeg s"
    by (simp add: properSeg_def)
  have a3: "CHR ''/'' \<notin> set ''1.2.3''" by simp
  have a4: "CHR ''/'' \<notin> set ''MyApp''" by simp
  have a5: "\<forall>t. nodes buildWorld (renderPath (butlast [''tmp'', ''build'', ''MyApp''] @ [''make'']))
              \<noteq> Some (File t)"
    by (simp add: buildWorld_def renderPath_def)
  have d: "path_dirname ''/tmp/build/make/MyApp-1.2.3.zip'' = ''/tmp/build/make''"
    by (simp add: path_dirname_def)
  from zip_maker_output_path[OF a1 a2 a3 a4 a5, of demoZip "''darwin''"]
  have "zipMaker demoZip ''/tmp/build/MyApp'' ''MyApp'' ''darwin'' ''1.2.3'' buildWorld =
          (Ok [''/tmp/build/make/MyApp-1.2.3.zip''],
           buildWorld\<lparr>nodes := (nodes buildWorld)
              (''/tmp/build/make'' \<mapsto> Dir,
               ''/tmp/build/make/MyApp-1.2.3.zip''
                 \<mapsto> File ''archive of /tmp/build/MyApp/MyApp.app'')\<rparr>)"
    by (simp add: renderPath_def demoZip_def d andThen_def)
  then show ?thesis using r by (simp add: buildWorld_def renderPath_def)
qed

section \<open>Properties of the configuration resolver\<close>

lemma baseMerge_keys: "fst ` set (baseMerge obj src) = fst ` set obj \<union> fst ` set src"
proof (induction src arbitrary: obj)
  case Nil
  show ?case by simp
next
  case (Cons p src)
  obtain k v where p: "p = (k, v)" by (cases p)
  show ?case by (simp add: p Cons.IH AList.dom_update)
qed

lemma baseMerge_lookup:
  "distinct (map fst src) \<Longrightarrow>
     map_of (baseMerge obj src) k =
       (case map_of src k of
          None \<Rightarrow> map_of obj k
        | Some sv \<Rightarrow> Some (baseMergeDeep (map_of obj k) sv))"
proof (induction src arbitrary: obj k)
  case Nil
  show ?case by simp
next
  case (Cons p src)
  obtain key v where p: "p = (key, v)" by (cases p)
  from Cons.prems p have d: "distinct (map fst src)" and nk: "key \<notin> fst ` set src" by auto
  show ?case
  proof (cases "k = key")
    case True
    with nk have "map_of src k = None" by (simp add: map_of_eq_None_iff)
    then show ?thesis using True by (simp add: p Cons.IH[OF d] AList.update_conv')
  next
    case False
    then show ?thesis
      by (simp add: p Cons.IH[OF d] AList.update_conv' split: option.splits)
  qed
qed

lemma baseMergeDeep_primitive: "(\<forall>c ps. m \<noteq> JObj c ps) \<Longrightarrow> baseMergeDeep d m = m"
  by (cases m) auto

lemma baseMergeDeep_onto_primitive:
  assumes "d = None \<or> (\<exists>x. d = Some x \<and> (\<forall>c ps. x \<noteq> JObj c ps))"
  shows "baseMergeDeep d m = m"
proof (cases m)
  case (JObj c ps)
  from assms show ?thesis
  proof
    assume "d = None"
    then show ?thesis using JObj by (cases c) auto
  next
    assume "\<exists>x. d = Some x \<and> (\<forall>c ps. x \<noteq> JObj c ps)"
    then obtain x where "d = Some x" "\<forall>c ps. x \<noteq> JObj c ps" by blast
    then show ?thesis using JObj by (cases c; cases x) auto
  qed
qed auto

lemma baseMergeDeep_same_class:
  "baseMergeDeep (Some (JObj c obj)) (JObj c src) = JObj c (baseMerge obj src)"
  by (cases c) auto

lemma baseMerge_into_empty:
  assumes "distinct (map fst src)"
  shows "map_of (baseMerge [] src) k = map_of src k"
  using baseMerge_lookup[OF assms, of "[]" k]
  by (auto simp: baseMergeDeep_onto_primitive split: option.splits)

lemma resolveConfig_unfold:
  "resolveConfig shared maker pkgArch dir outPath =
     baseMerge (baseMerge (baseMerge [] shared) maker)
       [(''arch'', JStr pkgArch), (''dest'', JStr (path_dirname outPath)), (''src'', JStr dir)]"
  by (simp add: resolveConfig_def merge_def)

text \<open>
  C1, as the code has it.  The merged configuration has exactly the keys of the two
  inputs and the three runtime fields, and the runtime fields hold the runtime values.
  Under any other key it has the shared value when the maker has none, and otherwise
  what \<open>baseMergeDeep\<close> makes of the two: the maker's value itself when that is not an
  object or array, or when the shared value is missing or not an object or array; for
  two plain objects, and for two arrays, the object or array of the recursive merge,
  which goes through the maker's properties one by one.
\<close>

theorem resolveConfig_deep_merge:
  assumes "distinct (map fst shared)" and "distinct (map fst maker)"
  shows "fst ` set (resolveConfig shared maker pkgArch dir outPath)
           = fst ` set shared \<union> fst ` set maker \<union> {''arch'', ''dest'', ''src''}
         \<and> map_of (resolveConfig shared maker pkgArch dir outPath) ''arch'' = Some (JStr pkgArch)
         \<and> map_of (resolveConfig shared maker pkgArch dir outPath) ''dest''
             = Some (JStr (path_dirname outPath))
         \<and> map_of (resolveConfig shared maker pkgArch dir outPath) ''src'' = Some (JStr dir)
         \<and> (\<forall>k. k \<notin> {''arch'', ''dest'', ''src''} \<longrightarrow>
               map_of (resolveConfig shared maker pkgArch dir outPath) k =
                 (case map_of maker k of
                    None \<Rightarrow> map_of shared k
                  | Some m \<Rightarrow> Some (baseMergeDeep (map_of shared k) m)))
         \<and> (\<forall>d m. (\<forall>c ps. m \<noteq> JObj c ps) \<longrightarrow> baseMergeDeep d m = m)
         \<and> (\<forall>d m. d = None \<or> (\<exists>x. d = Some x \<and> (\<forall>c ps. x \<noteq> JObj c ps))
               \<longrightarrow> baseMergeDeep d m = m)
         \<and> (\<forall>c obj src. baseMergeDeep (Some (JObj c obj)) (JObj c src)
                           = JObj c (baseMerge obj src))
         \<and> (\<forall>obj src k. distinct (map fst src) \<longrightarrow>
               map_of (baseMerge obj src) k =
                 (case map_of src k of
                    None \<Rightarrow> map_of obj k
                  | Some sv \<Rightarrow> Some (baseMergeDeep (map_of obj k) sv)))"
proof -
  let ?rt = "[(''arch'', JStr pkgArch), (''dest'', JStr (path_dirname outPath)), (''src'', JStr dir)]"
  let ?two = "baseMerge (baseMerge [] shared) maker"
  have drt: "distinct (map fst ?rt)" by simp
  have keys: "fst ` set (resolveConfig shared maker pkgArch dir outPath)
           = fst ` set shared \<union> fst ` set maker \<union> {''arch'', ''dest'', ''src''}"
    unfolding resolveConfig_unfold baseMerge_keys by auto
  have rt: "map_of (resolveConfig shared maker pkgArch dir outPath) k =
              (case map_of ?rt k of None \<Rightarrow> map_of ?two k
               | Some sv \<Rightarrow> Some (baseMergeDeep (map_of ?two k) sv))" for k
    unfolding resolveConfig_unfold by (rule baseMerge_lookup[OF drt])
  have two: "map_of ?two k =
               (case map_of maker k of
                  None \<Rightarrow> map_of shared k
                | Some m \<Rightarrow> Some (baseMergeDeep (map_of shared k) m))" for k
    using baseMerge_lookup[OF assms(2), of "baseMerge [] shared" k]
    by (simp add: baseMerge_into_empty[OF assms(1)] split: option.splits)
  have other: "map_of (resolveConfig shared maker pkgArch dir outPath) k = map_of ?two k"
    if "k \<notin> {''arch'', ''dest'', ''src''}" for k
    using that rt[of k] by simp
  show ?thesis
    apply (intro conjI)
            apply (rule keys)
           apply (simp add: rt)
          apply (simp add: rt)
         apply (simp add: rt)
        apply (simp add: other two)
       apply (simp add: baseMergeDeep_primitive)
      apply (simp add: baseMergeDeep_onto_primitive)
     apply (simp add: baseMergeDeep_same_class)
    apply (simp add: baseMerge_lookup)
    done
qed

lemma demo_resolved:
  "resolveConfig demoShared demoMaker ''x64'' ''/app/out/app-linux-x64'' ''/app/out/make/app.deb''
     = [(''options'',
           JObj PlainObject
             [(''maintainer'', JStr ''Ann''), (''section'', JStr ''devel''),
              (''homepage'', JStr ''example.org'')]),
        (''categories'',
           JObj ArrayObject [(''0'', JStr ''Utility''), (''1'', JStr ''Office'')]),
        (''arch'', JStr ''x64''),
        (''icon'', JStr ''maker.png''),
        (''dest'', JStr ''/app/out/make''),
        (''src'', JStr ''/app/out/app-linux-x64'')]"
  by (simp add: resolveConfig_def merge_def demoShared_def demoMaker_def path_dirname_def)

theorem resolveConfig_deep_merge_witness:
  "distinct (map fst demoShared) \<and> distinct (map fst demoMaker)
   \<and> map_of demoShared ''arch'' = Some (JStr ''ia32'')
   \<and> map_of (resolveConfig demoShared demoMaker ''x64'' ''/app/out/app-linux-x64''
               ''/app/out/make/app.deb'') ''arch'' = Some (JStr ''x64'')
   \<and> map_of (resolveConfig demoShared demoMaker ''x64'' ''/app/out/app-linux-x64''
               ''/app/out/make/app.deb'') ''icon'' = Some (JStr ''maker.png'')
   \<and> map_of (resolveConfig demoShared demoMaker ''x64'' ''/app/out/app-linux-x64''
               ''/app/out/make/app.deb'') ''options''
       = Some (JObj PlainObject
                 [(''maintainer'', JStr ''Ann''), (''section'', JStr ''devel''),
                  (''homepage'', JStr ''example.org'')])"
proof -
  have d1: "distinct (map fst demoShared)" by (simp add: demoShared_def)
  have d2: "distinct (map fst demoMaker)" by (simp add: demoMaker_def)
  note t = resolveConfig_deep_merge[OF d1 d2, of "''x64''" "''/app/out/app-linux-x64''"
      "''/app/out/make/app.deb''"]
  from t have a: "map_of (resolveConfig demoShared demoMaker ''x64'' ''/app/out/app-linux-x64''
               ''/app/out/make/app.deb'') ''arch'' = Some (JStr ''x64'')"
    by blast
  from t have "map_of (resolveConfig demoShared demoMaker ''x64'' ''/app/out/app-linux-x64''
               ''/app/out/make/app.deb'') ''icon'' =
                 (case map_of demoMaker ''icon'' of
                    None \<Rightarrow> map_of demoShared ''icon''
                  | Some m \<Rightarrow> Some (baseMergeDeep (map_of demoShared ''icon'') m))"
    by simp
  then have i: "map_of (resolveConfig demoShared demoMaker ''x64'' ''/app/out/app-linux-x64''
               ''/app/out/make/app.deb'') ''icon'' = Some (JStr ''maker.png'')"
    by (simp add: demoMaker_def demoShared_def)
  show ?thesis using d1 d2 a i by (simp add: demo_resolved) (simp add: demoShared_def)
qed

text \<open>
  C1 as stated fails: under \<^verbatim>\<open>categories\<close> both inputs have an array, which is not
  a mapping, and the merged configuration does not have the maker's array there: it has
  the maker's first element followed by the second element of the shared array.
\<close>

theorem resolveConfig_counterexample:
  "map_of demoShared ''categories''
     = Some (JObj ArrayObject [(''0'', JStr ''Development''), (''1'', JStr ''Office'')])
   \<and> map_of demoMaker ''categories'' = Some (JObj ArrayObject [(''0'', JStr ''Utility'')])
   \<and> map_of (resolveConfig demoShared demoMaker ''x64'' ''/app/out/app-linux-x64''
               ''/app/out/make/app.deb'') ''categories''
       = Some (JObj ArrayObject [(''0'', JStr ''Utility''), (''1'', JStr ''Office'')])
   \<and> map_of (resolveConfig demoShared demoMaker ''x64'' ''/app/out/app-linux-x64''
               ''/app/out/make/app.deb'') ''categories''
       \<noteq> map_of demoMaker ''categories''"
  by (simp add: demo_resolved) (simp add: demoShared_def demoMaker_def)

end
